theory Spec2Isabelle
  imports Main "HOL-Library.Word" "HOL-Library.Sublist"
begin

section \<open>Values shared by the startup code\<close>

text \<open>
  A Go \<open>error\<close> value returned by a collaborator. The cluster API reports
  "already exists" as a condition of its own; every other failure carries its message.
\<close>

datatype error = AlreadyExists | Failure string

text \<open>The registry credentials handed to \<open>server.New\<close> (\<open>server.DockerRegistry\<close>).\<close>

record DockerRegistry =
  Registry :: string
  Username :: string
  Password :: string
  Email :: string
  Auth :: string

text \<open>
  \<open>autocert.Manager\<close> as \<open>getLetsEncrypt\<close> fills it: \<open>Cache\<close> is the directory given to
  \<open>autocert.DirCache\<close>, \<open>HostPolicy\<close> the host given to \<open>autocert.HostWhitelist\<close>.
\<close>

datatype prompt = AcceptTOS

record Manager =
  Prompt :: prompt
  Cache :: string
  HostPolicy :: string
  Email :: string

text \<open>
  \<open>tls.Config\<close>, restricted to the two fields the credential constructors set, and the
  \<open>credentials.TransportCredentials\<close> that \<open>credentials.NewTLS\<close> wraps around it. The
  datatype has no nil value: \<open>NewTLS\<close> always returns an object.
\<close>

record tls_Config =
  Certificates :: "string list"
  GetCertificate :: "Manager option"

datatype TransportCredentials = NewTLS tls_Config

text \<open>
  What the process does that can be observed from outside: log lines, calls that leave the
  process (entered, then left with the error they returned, \<open>None\<close> for nil), and the gRPC
  server starting to serve on the listener with its credentials.
\<close>

datatype call =
    GoMetrics string string
  | NetListen "32 word"
  | InClusterConfig
  | NewForConfig
  | ServerNew
  | CreateTraefik string string string "32 word"
  | CreateSSHServer string string string "32 word"
  | CreateBlackDeath string string string
  | NewServerTLSFromFile string string
  | GetLetsEncrypt string string string

datatype event =
    Println string
  | Enter call
  | Leave call "error option"
  | Serve "32 word" TransportCredentials

text \<open>
  The state threaded through startup: the events so far and the state of the cluster
  behind the client handle.
\<close>

record 'k world =
  trace :: "event list"
  cluster :: 'k

text \<open>
  A startup program either panics with an error (\<open>Inl\<close>) or continues with a value; both
  keep the world reached so far.
\<close>

type_synonym ('a, 'k) prog = "'k world \<Rightarrow> (error + 'a) \<times> 'k world"

definition ret :: "'a \<Rightarrow> ('a, 'k) prog" where
  "ret a = (\<lambda>w. (Inr a, w))"

definition panic :: "error \<Rightarrow> ('a, 'k) prog" where
  "panic e = (\<lambda>w. (Inl e, w))"

definition bind :: "('a, 'k) prog \<Rightarrow> ('a \<Rightarrow> ('b, 'k) prog) \<Rightarrow> ('b, 'k) prog" where
  "bind p f = (\<lambda>w. case p w of (Inl e, w') \<Rightarrow> (Inl e, w') | (Inr a, w') \<Rightarrow> f a w')"

definition emit :: "event \<Rightarrow> (unit, 'k) prog" where
  "emit ev = (\<lambda>w. (Inr (), w\<lparr>trace := trace w @ [ev]\<rparr>))"

text \<open>\<open>x, err := f(); if err != nil { panic(err) }\<close> for a call that leaves the cluster alone.\<close>

definition must :: "call \<Rightarrow> error + 'a \<Rightarrow> ('a, 'k) prog" where
  "must c r =
     bind (emit (Enter c)) (\<lambda>_.
     bind (emit (Leave c (case r of Inl e \<Rightarrow> Some e | Inr _ \<Rightarrow> None))) (\<lambda>_.
     (case r of Inl e \<Rightarrow> panic e | Inr a \<Rightarrow> ret a)))"

text \<open>\<open>err = f(client, ...); if err != nil { panic(err) }\<close> for a call that acts on the cluster.\<close>

definition mustCluster :: "call \<Rightarrow> ('k \<Rightarrow> error option \<times> 'k) \<Rightarrow> (unit, 'k) prog" where
  "mustCluster c f =
     bind (emit (Enter c)) (\<lambda>_.
     (\<lambda>w. case f (cluster w) of
        (None, k') \<Rightarrow> (Inr (), w\<lparr>cluster := k', trace := trace w @ [Leave c None]\<rparr>)
      | (Some e, k') \<Rightarrow> (Inl e, w\<lparr>cluster := k', trace := trace w @ [Leave c (Some e)]\<rparr>)))"

section \<open>The credential helper\<close>

text \<open>
  \<open>getLetsEncrypt\<close> (the same body in both entry points): builds the manager and wraps its
  certificate getter; the error it returns is the literal nil.
\<close>

definition getLetsEncrypt :: "string \<Rightarrow> string \<Rightarrow> string \<Rightarrow> error + TransportCredentials" where
  "getLetsEncrypt domain email cache =
     (let manager = \<lparr>Prompt = AcceptTOS, Cache = cache, HostPolicy = domain, Email = email\<rparr>
      in Inr (NewTLS \<lparr>Certificates = [], GetCertificate = Some manager\<rparr>))"

section \<open>The server sub command\<close>

record cmdServer =
  Port :: "32 word"
  TLSCert :: string
  TLSKey :: string
  Token :: string
  Namespace :: string
  FilesystemSize :: string
  LetsEncryptEmail :: string
  LetsEncryptDomain :: string
  LetsEncryptCache :: string
  SSHService :: string
  DockerCfgRegistry :: string
  DockerCfgUsername :: string
  DockerCfgPassword :: string
  DockerCfgEmail :: string
  DockerCfgAuth :: string
  PrometheusPort :: string
  PrometheusPath :: string
  PrometheusApache :: "32 word"

text \<open>
  The collaborators of startup, taken as parameters: the answers of \<open>net.Listen\<close> on a
  port, \<open>rest.InClusterConfig\<close>, the client constructor, \<open>server.New\<close> on its arguments
  after the client and its configuration,
  \<open>credentials.NewServerTLSFromFile\<close> on a certificate and key path, and the three addon
  constructors, which act on the cluster.
\<close>

record 'k sys =
  net_Listen :: "32 word \<Rightarrow> error option"
  rest_InClusterConfig :: "error option"
  client_NewForConfig :: "error option"
  server_New :: "string \<Rightarrow> string \<Rightarrow> string \<Rightarrow> string \<Rightarrow> 32 word \<Rightarrow> DockerRegistry \<Rightarrow> error option"
  credentials_NewServerTLSFromFile :: "string \<Rightarrow> string \<Rightarrow> error + TransportCredentials"
  addons_CreateTraefik :: "string \<Rightarrow> string \<Rightarrow> string \<Rightarrow> 32 word \<Rightarrow> 'k \<Rightarrow> error option \<times> 'k"
  addons_CreateSSHServer :: "string \<Rightarrow> string \<Rightarrow> string \<Rightarrow> 32 word \<Rightarrow> 'k \<Rightarrow> error option \<times> 'k"
  addons_CreateBlackDeath :: "string \<Rightarrow> string \<Rightarrow> string \<Rightarrow> 'k \<Rightarrow> error option \<times> 'k"

definition orErr :: "error option \<Rightarrow> error + unit" where
  "orErr r = (case r of None \<Rightarrow> Inr () | Some e \<Rightarrow> Inl e)"

text \<open>
  \<open>cmdServer.run\<close>, the main goroutine. The metrics goroutine is started and not followed.
\<close>

definition run :: "'k sys \<Rightarrow> cmdServer \<Rightarrow> (unit, 'k) prog" where
  "run sys cmd =
     bind (emit (Println ''Starting Prometheus Endpoint'')) (\<lambda>_.
     bind (emit (Enter (GoMetrics (PrometheusPort cmd) (PrometheusPath cmd)))) (\<lambda>_.
     bind (emit (Println ''Starting Server'')) (\<lambda>_.
     bind (must (NetListen (Port cmd)) (orErr (net_Listen sys (Port cmd)))) (\<lambda>_.
     bind (must InClusterConfig (orErr (rest_InClusterConfig sys))) (\<lambda>_.
     bind (must NewForConfig (orErr (client_NewForConfig sys))) (\<lambda>_.
     bind (emit (Println ''Booting API'')) (\<lambda>_.
     bind (must ServerNew (orErr (server_New sys (Token cmd) (Namespace cmd) (SSHService cmd)
             (FilesystemSize cmd) (PrometheusApache cmd)
             \<lparr>Registry = DockerCfgRegistry cmd, Username = DockerCfgUsername cmd,
              Password = DockerCfgPassword cmd, DockerRegistry.Email = DockerCfgEmail cmd,
              Auth = DockerCfgAuth cmd\<rparr>))) (\<lambda>_.
     bind (if TLSCert cmd \<noteq> [] \<and> TLSKey cmd \<noteq> []
           then must (NewServerTLSFromFile (TLSCert cmd) (TLSKey cmd))
                  (credentials_NewServerTLSFromFile sys (TLSCert cmd) (TLSKey cmd))
           else must (GetLetsEncrypt (LetsEncryptDomain cmd) (LetsEncryptEmail cmd) (LetsEncryptCache cmd))
                  (getLetsEncrypt (LetsEncryptDomain cmd) (LetsEncryptEmail cmd) (LetsEncryptCache cmd)))
          (\<lambda>creds.
     emit (Serve (Port cmd) creds))))))))))"

section \<open>The earlier entry point, with the addon bootstrap\<close>

text \<open>The flag variables of the earlier \<open>main\<close>, after \<open>kingpin.Parse\<close>.\<close>

record flags =
  cliPort :: "32 word"
  cliCert :: string
  cliKey :: string
  cliToken :: string
  cliNamespace :: string
  cliCacheSize :: string
  cliLetsEncryptEmail :: string
  cliLetsEncryptDomain :: string
  cliLetsEncryptCache :: string
  cliBlackDeathImage :: string
  cliBlackDeathVersion :: string
  cliTraefikImage :: string
  cliTraefikVersion :: string
  cliTraefikPort :: "32 word"
  cliSSHImage :: string
  cliSSHVersion :: string
  cliSSHPort :: "32 word"

definition main :: "'k sys \<Rightarrow> flags \<Rightarrow> (unit, 'k) prog" where
  "main sys cli =
     bind (emit (Println ''Starting'')) (\<lambda>_.
     bind (must (NetListen (cliPort cli)) (orErr (net_Listen sys (cliPort cli)))) (\<lambda>_.
     bind (must InClusterConfig (orErr (rest_InClusterConfig sys))) (\<lambda>_.
     bind (must NewForConfig (orErr (client_NewForConfig sys))) (\<lambda>_.
     bind (emit (Println ''Installing addon: traefik'')) (\<lambda>_.
     bind (mustCluster
             (CreateTraefik (cliNamespace cli) (cliTraefikImage cli) (cliTraefikVersion cli) (cliTraefikPort cli))
             (addons_CreateTraefik sys (cliNamespace cli) (cliTraefikImage cli) (cliTraefikVersion cli) (cliTraefikPort cli))) (\<lambda>_.
     bind (emit (Println ''Installing addon: ssh-server'')) (\<lambda>_.
     bind (mustCluster
             (CreateSSHServer (cliNamespace cli) (cliSSHImage cli) (cliSSHVersion cli) (cliSSHPort cli))
             (addons_CreateSSHServer sys (cliNamespace cli) (cliSSHImage cli) (cliSSHVersion cli) (cliSSHPort cli))) (\<lambda>_.
     bind (emit (Println ''Installing addon: black-death'')) (\<lambda>_.
     bind (mustCluster
             (CreateBlackDeath (cliNamespace cli) (cliBlackDeathImage cli) (cliBlackDeathVersion cli))
             (addons_CreateBlackDeath sys (cliNamespace cli) (cliBlackDeathImage cli) (cliBlackDeathVersion cli))) (\<lambda>_.
     bind (emit (Println ''Booting API'')) (\<lambda>_.
     bind (if cliCert cli \<noteq> [] \<and> cliKey cli \<noteq> []
           then must (NewServerTLSFromFile (cliCert cli) (cliKey cli))
                  (credentials_NewServerTLSFromFile sys (cliCert cli) (cliKey cli))
           else must (GetLetsEncrypt (cliLetsEncryptDomain cli) (cliLetsEncryptEmail cli) (cliLetsEncryptCache cli))
                  (getLetsEncrypt (cliLetsEncryptDomain cli) (cliLetsEncryptEmail cli) (cliLetsEncryptCache cli)))
          (\<lambda>creds.
     emit (Serve (cliPort cli) creds)))))))))))))"

text \<open>The world at process start: nothing has happened yet.\<close>

definition start :: "'k \<Rightarrow> 'k world" where
  "start k = \<lparr>trace = [], cluster = k\<rparr>"

text \<open>Readers of a trace.\<close>

fun isAddon :: "call \<Rightarrow> bool" where
  "isAddon (CreateTraefik _ _ _ _) = True"
| "isAddon (CreateSSHServer _ _ _ _) = True"
| "isAddon (CreateBlackDeath _ _ _) = True"
| "isAddon _ = False"

fun isAddonEvent :: "event \<Rightarrow> bool" where
  "isAddonEvent (Enter c) = isAddon c"
| "isAddonEvent (Leave c _) = isAddon c"
| "isAddonEvent _ = False"

fun isServe :: "event \<Rightarrow> bool" where
  "isServe (Serve _ _) = True"
| "isServe _ = False"

fun isStaticLoad :: "event \<Rightarrow> bool" where
  "isStaticLoad (Enter (NewServerTLSFromFile _ _)) = True"
| "isStaticLoad (Leave (NewServerTLSFromFile _ _) _) = True"
| "isStaticLoad _ = False"

fun isLetsEncrypt :: "event \<Rightarrow> bool" where
  "isLetsEncrypt (Enter (GetLetsEncrypt _ _ _)) = True"
| "isLetsEncrypt (Leave (GetLetsEncrypt _ _ _) _) = True"
| "isLetsEncrypt _ = False"

definition serves :: "(error + unit) \<times> 'k world \<Rightarrow> bool" where
  "serves r = list_ex isServe (trace (snd r))"

definition panicked :: "(error + unit) \<times> 'k world \<Rightarrow> bool" where
  "panicked r = (case fst r of Inl _ \<Rightarrow> True | Inr _ \<Rightarrow> False)"

section \<open>The cache volume claim\<close>

datatype PersistentVolumeAccessMode = ReadWriteOnce | ReadOnlyMany | ReadWriteMany

datatype ResourceName = ResourceCPU | ResourceMemory | ResourceStorage

record PersistentVolumeClaimInput =
  Namespace :: string
  Name :: string
  Storage :: string

record ObjectMeta =
  Namespace :: string
  Name :: string
  Annotations :: "string \<rightharpoonup> string"

record 'q ResourceRequirements =
  Requests :: "ResourceName \<rightharpoonup> 'q"

record 'q PersistentVolumeClaimSpec =
  AccessModes :: "PersistentVolumeAccessMode list"
  Resources :: "'q ResourceRequirements"

record 'q PersistentVolumeClaim_obj =
  Meta :: ObjectMeta
  Spec :: "'q PersistentVolumeClaimSpec"

text \<open>
  \<open>PersistentVolumeClaim\<close>. The quantity parser of the cluster library is a parameter:
  \<open>resource.MustParse\<close> panics where \<open>parseQuantity\<close> has no answer, and then no claim
  object is produced (\<open>None\<close>).
\<close>

definition PersistentVolumeClaim ::
  "(string \<Rightarrow> 'q option) \<Rightarrow> PersistentVolumeClaimInput \<Rightarrow> 'q PersistentVolumeClaim_obj option" where
  "PersistentVolumeClaim parseQuantity input =
     (case parseQuantity (Storage input) of
        None \<Rightarrow> None
      | Some q \<Rightarrow> Some
          \<lparr>Meta = \<lparr>ObjectMeta.Namespace = PersistentVolumeClaimInput.Namespace input,
                   ObjectMeta.Name = PersistentVolumeClaimInput.Name input,
                   Annotations = [''volume.beta.kubernetes.io/storage-class'' \<mapsto> ''cache'',
                                  ''author'' \<mapsto> ''m8s'']\<rparr>,
           Spec = \<lparr>AccessModes = [ReadWriteMany],
                   Resources = \<lparr>Requests = [ResourceStorage \<mapsto> q]\<rparr>\<rparr>\<rparr>)"

section \<open>The environment build orchestrator\<close>

text \<open>
  Modelled from the spec: the data of the orchestrator. The server package behind
  \<open>server.New\<close> is only called from \<open>cmdServer.run\<close>; its own code is missing, so the
  definitions of this section follow the written design (sections 3 and 4.4) and each says
  so. An environment status is one of the states of the design's state machine, or the
  answer \<open>NotFound\<close>.
\<close>

type_synonym identity = string

datatype EnvironmentStatus =
  Requested | Provisioning | Ready | Failed | Destroying | Destroyed | NotFound

text \<open>
  Modelled from the spec: a metadata value as the sweeper of section 4.5 reads it (the
  sweeper is missing too): a point in time, a duration, or plain text. A value of the wrong
  kind under a key is what the design calls malformed.
\<close>

datatype label = Time nat | Duration nat | Text string

record Workload =
  image :: string
  labels :: "string \<rightharpoonup> label"

record Environment =
  status :: EnvironmentStatus
  requestedAt :: nat
  ttl :: nat
  registryCredential :: string
  desiredImage :: string

text \<open>
  Modelled from the spec: the orchestrator's table of environments together with the
  cluster resource store it writes to (section 6): workloads, routes and secrets keyed by
  name, and the one shared cache claim.
\<close>

record 'c orchestrator =
  environments :: "identity \<rightharpoonup> Environment"
  workloads :: "identity \<rightharpoonup> Workload"
  routes :: "identity \<rightharpoonup> string"
  secrets :: "identity \<rightharpoonup> string"
  cacheClaim :: "'c option"

datatype resource = SecretResource | WorkloadResource | RouteResource

text \<open>
  Modelled from the spec: an environment is active while it is recorded in a non-terminal
  state; \<open>Destroyed\<close> is the only terminal state (section 4.4).
\<close>

definition active :: "'c orchestrator \<Rightarrow> identity \<Rightarrow> bool" where
  "active s i = (case environments s i of None \<Rightarrow> False | Some e \<Rightarrow> status e \<noteq> Destroyed)"

definition setStatus :: "identity \<Rightarrow> EnvironmentStatus \<Rightarrow> 'c orchestrator \<Rightarrow> 'c orchestrator" where
  "setStatus i st s =
     s\<lparr>environments := (case environments s i of
          None \<Rightarrow> environments s
        | Some e \<Rightarrow> (environments s)(i \<mapsto> e\<lparr>status := st\<rparr>))\<rparr>"

text \<open>
  Modelled from the spec: the expiry metadata stamped on a new workload (section 4.4:
  createdAt = now, ttl = requested ttl, owner = identity); the stamping code is in the
  missing server package.
\<close>

definition expiryLabels :: "nat \<Rightarrow> nat \<Rightarrow> identity \<Rightarrow> (string \<rightharpoonup> label)" where
  "expiryLabels now t i = [''createdAt'' \<mapsto> Time now, ''ttl'' \<mapsto> Duration t, ''owner'' \<mapsto> Text i]"

text \<open>
  Modelled from the spec: the sweeper's reading of a workload (section 4.5: a workload is
  deleted once now - createdAt exceeds ttl); the sweeper is an addon whose code is missing.
  The moment of expiry is createdAt + ttl; a workload whose metadata is omitted or
  malformed has none and never expires.
\<close>

definition expiry :: "Workload \<Rightarrow> nat option" where
  "expiry w =
     (case labels w ''createdAt'' of
        Some (Time c) \<Rightarrow>
          (case labels w ''ttl'' of
             Some (Duration d) \<Rightarrow> Some (c + d)
           | _ \<Rightarrow> None)
      | _ \<Rightarrow> None)"

text \<open>
  Modelled from the spec: the three creation steps of provisioning (section 4.4), whose code
  is in the missing server package. A step fails when the cluster API fails for that
  resource in this call (\<open>fault\<close>) or when the store already holds the name (section 5: the
  store's create call rejects duplicate names).
\<close>

definition createSecret ::
  "(resource \<Rightarrow> bool) \<Rightarrow> identity \<Rightarrow> string \<Rightarrow> 'c orchestrator \<Rightarrow> 'c orchestrator option" where
  "createSecret fault i cred s =
     (if fault SecretResource \<or> secrets s i \<noteq> None then None
      else Some (s\<lparr>secrets := (secrets s)(i \<mapsto> cred)\<rparr>))"

definition createWorkload ::
  "(resource \<Rightarrow> bool) \<Rightarrow> identity \<Rightarrow> Workload \<Rightarrow> 'c orchestrator \<Rightarrow> 'c orchestrator option" where
  "createWorkload fault i w s =
     (if fault WorkloadResource \<or> workloads s i \<noteq> None then None
      else Some (s\<lparr>workloads := (workloads s)(i \<mapsto> w)\<rparr>))"

definition createRoute ::
  "(resource \<Rightarrow> bool) \<Rightarrow> identity \<Rightarrow> 'c orchestrator \<Rightarrow> 'c orchestrator option" where
  "createRoute fault i s =
     (if fault RouteResource \<or> routes s i \<noteq> None then None
      else Some (s\<lparr>routes := (routes s)(i \<mapsto> i)\<rparr>))"

text \<open>
  Modelled from the spec: provisioning of a new environment (section 4.4), missing with the
  server package. The environment is recorded as Requested, then Provisioning; the secret,
  the workload with its expiry metadata and the route are created in that order; the
  status ends as Ready, or as Failed at the first step that fails, and what earlier steps
  created stays in place.
\<close>

definition provision ::
  "nat \<Rightarrow> (resource \<Rightarrow> bool) \<Rightarrow> identity \<Rightarrow> string \<Rightarrow> string \<Rightarrow> nat \<Rightarrow> 'c orchestrator
     \<Rightarrow> EnvironmentStatus \<times> 'c orchestrator" where
  "provision now fault i img cred t s =
     (let s0 = s\<lparr>environments := (environments s)(i \<mapsto>
                 \<lparr>status = Requested, requestedAt = now, ttl = t,
                  registryCredential = cred, desiredImage = img\<rparr>)\<rparr>;
          s1 = setStatus i Provisioning s0
      in case createSecret fault i cred s1 of
           None \<Rightarrow> (Failed, setStatus i Failed s1)
         | Some s2 \<Rightarrow>
             (case createWorkload fault i \<lparr>image = img, labels = expiryLabels now t i\<rparr> s2 of
                None \<Rightarrow> (Failed, setStatus i Failed s2)
              | Some s3 \<Rightarrow>
                  (case createRoute fault i s3 of
                     None \<Rightarrow> (Failed, setStatus i Failed s3)
                   | Some s4 \<Rightarrow> (Ready, setStatus i Ready s4))))"

text \<open>
  Modelled from the spec: \<open>Build\<close> of the RPC surface (section 4.4), missing with the server
  package. An active environment for the identity is answered with its status and nothing
  else happens; otherwise a new environment is provisioned.
\<close>

definition Build ::
  "nat \<Rightarrow> (resource \<Rightarrow> bool) \<Rightarrow> identity \<Rightarrow> string \<Rightarrow> string \<Rightarrow> nat \<Rightarrow> 'c orchestrator
     \<Rightarrow> EnvironmentStatus \<times> 'c orchestrator" where
  "Build now fault i img cred t s =
     (case environments s i of
        None \<Rightarrow> provision now fault i img cred t s
      | Some e \<Rightarrow>
          if status e \<noteq> Destroyed then (status e, s)
          else provision now fault i img cred t s)"

text \<open>
  Modelled from the spec: \<open>Status\<close> of the RPC surface (section 4.4), missing with the
  server package: a read-only lookup, \<open>NotFound\<close> when no environment matches.
\<close>

definition Status :: "identity \<Rightarrow> 'c orchestrator \<Rightarrow> EnvironmentStatus" where
  "Status i s = (case environments s i of None \<Rightarrow> NotFound | Some e \<Rightarrow> status e)"

text \<open>
  Modelled from the spec: \<open>Destroy\<close> of the RPC surface (section 4.4), missing with the
  server package. An active environment passes through Destroying, its workload, route and
  secret are deleted, and it is forgotten once destroyed; any other identity is answered
  \<open>NotFound\<close> with nothing changed.
\<close>

definition Destroy :: "identity \<Rightarrow> 'c orchestrator \<Rightarrow> EnvironmentStatus \<times> 'c orchestrator" where
  "Destroy i s =
     (if active s i
      then (let s1 = setStatus i Destroying s;
                s2 = s1\<lparr>workloads := (workloads s1)(i := None),
                        routes := (routes s1)(i := None),
                        secrets := (secrets s1)(i := None)\<rparr>
            in (Destroyed, s2\<lparr>environments := (environments s2)(i := None)\<rparr>))
      else (NotFound, s))"

text \<open>
  Modelled from the spec: the requests of the RPC surface (section 6) and the service
  answering a sequence of them, one after the other; the dispatch is in the missing server
  package. A build request carries the time of the call and the cluster faults met by it.
\<close>

datatype request =
    BuildRequest nat "resource \<Rightarrow> bool" identity string string nat
  | StatusRequest identity
  | DestroyRequest identity

fun handle :: "request \<Rightarrow> 'c orchestrator \<Rightarrow> EnvironmentStatus \<times> 'c orchestrator" where
  "handle (BuildRequest now fault i img cred t) s = Build now fault i img cred t s"
| "handle (StatusRequest i) s = (Status i s, s)"
| "handle (DestroyRequest i) s = Destroy i s"

fun serveAll :: "request list \<Rightarrow> 'c orchestrator \<Rightarrow> 'c orchestrator" where
  "serveAll [] s = s"
| "serveAll (r # rs) s = serveAll rs (snd (handle r s))"

section \<open>Vocabulary of the statements\<close>

text \<open>The credentials \<open>getLetsEncrypt\<close> builds, as a value.\<close>

definition letsEncryptCreds :: "string \<Rightarrow> string \<Rightarrow> string \<Rightarrow> TransportCredentials" where
  "letsEncryptCreds domain email cache = NewTLS \<lparr>Certificates = [], GetCertificate =
     Some \<lparr>Prompt = AcceptTOS, Cache = cache, HostPolicy = domain, Email = email\<rparr>\<rparr>"

text \<open>The events of \<open>cmdServer.run\<close> up to the call of \<open>net.Listen\<close>, and up to \<open>server.New\<close>.\<close>

definition runPrefix :: "cmdServer \<Rightarrow> event list" where
  "runPrefix cmd =
     [Println ''Starting Prometheus Endpoint'',
      Enter (GoMetrics (PrometheusPort cmd) (PrometheusPath cmd)),
      Println ''Starting Server'',
      Enter (NetListen (Port cmd))]"

definition runBooted :: "cmdServer \<Rightarrow> event list" where
  "runBooted cmd = runPrefix cmd @ [Leave (NetListen (Port cmd)) None,
        Enter InClusterConfig, Leave InClusterConfig None,
        Enter NewForConfig, Leave NewForConfig None,
        Println ''Booting API'', Enter ServerNew]"

text \<open>The answer of \<open>server.New\<close> to the arguments \<open>cmdServer.run\<close> gives it.\<close>

definition newServer :: "'k sys \<Rightarrow> cmdServer \<Rightarrow> error option" where
  "newServer sys cmd =
     server_New sys (Token cmd) (cmdServer.Namespace cmd) (SSHService cmd)
       (FilesystemSize cmd) (PrometheusApache cmd)
       \<lparr>Registry = DockerCfgRegistry cmd, Username = DockerCfgUsername cmd,
        Password = DockerCfgPassword cmd, DockerRegistry.Email = DockerCfgEmail cmd,
        Auth = DockerCfgAuth cmd\<rparr>"

text \<open>The three addon calls of the earlier \<open>main\<close>, with the flags they are given.\<close>

definition traefikCall :: "flags \<Rightarrow> call" where
  "traefikCall cli =
     CreateTraefik (cliNamespace cli) (cliTraefikImage cli) (cliTraefikVersion cli) (cliTraefikPort cli)"

definition sshCall :: "flags \<Rightarrow> call" where
  "sshCall cli =
     CreateSSHServer (cliNamespace cli) (cliSSHImage cli) (cliSSHVersion cli) (cliSSHPort cli)"

definition blackDeathCall :: "flags \<Rightarrow> call" where
  "blackDeathCall cli =
     CreateBlackDeath (cliNamespace cli) (cliBlackDeathImage cli) (cliBlackDeathVersion cli)"

definition createTraefik :: "'k sys \<Rightarrow> flags \<Rightarrow> 'k \<Rightarrow> error option \<times> 'k" where
  "createTraefik sys cli =
     addons_CreateTraefik sys (cliNamespace cli) (cliTraefikImage cli) (cliTraefikVersion cli) (cliTraefikPort cli)"

definition createSSHServer :: "'k sys \<Rightarrow> flags \<Rightarrow> 'k \<Rightarrow> error option \<times> 'k" where
  "createSSHServer sys cli =
     addons_CreateSSHServer sys (cliNamespace cli) (cliSSHImage cli) (cliSSHVersion cli) (cliSSHPort cli)"

definition createBlackDeath :: "'k sys \<Rightarrow> flags \<Rightarrow> 'k \<Rightarrow> error option \<times> 'k" where
  "createBlackDeath sys cli =
     addons_CreateBlackDeath sys (cliNamespace cli) (cliBlackDeathImage cli) (cliBlackDeathVersion cli)"

text \<open>The events of the earlier \<open>main\<close> up to each of its stages.\<close>

definition mainPrefix :: "flags \<Rightarrow> event list" where
  "mainPrefix cli = [Println ''Starting'', Enter (NetListen (cliPort cli))]"

definition mainClient :: "flags \<Rightarrow> event list" where
  "mainClient cli = mainPrefix cli @ [Leave (NetListen (cliPort cli)) None,
     Enter InClusterConfig, Leave InClusterConfig None,
     Enter NewForConfig, Leave NewForConfig None,
     Println ''Installing addon: traefik'', Enter (traefikCall cli)]"

definition mainTraefik :: "flags \<Rightarrow> event list" where
  "mainTraefik cli = mainClient cli @ [Leave (traefikCall cli) None,
     Println ''Installing addon: ssh-server'', Enter (sshCall cli)]"

definition mainSSH :: "flags \<Rightarrow> event list" where
  "mainSSH cli = mainTraefik cli @ [Leave (sshCall cli) None,
     Println ''Installing addon: black-death'', Enter (blackDeathCall cli)]"

definition mainAddons :: "flags \<Rightarrow> event list" where
  "mainAddons cli = mainSSH cli @ [Leave (blackDeathCall cli) None, Println ''Booting API'']"

definition addonEvents :: "(error + unit) \<times> 'k world \<Rightarrow> event list" where
  "addonEvents r = filter isAddonEvent (trace (snd r))"

section \<open>Concrete inputs\<close>

text \<open>The defaults that \<open>Server\<close> declares for the flags of the server sub command.\<close>

definition serverDefaults :: cmdServer where
  "serverDefaults =
     \<lparr>Port = 443, TLSCert = [], TLSKey = [], Token = [],
      cmdServer.Namespace = ''default'', FilesystemSize = ''100Gi'',
      LetsEncryptEmail = ''admin@previousnext.com.au'', LetsEncryptDomain = [],
      LetsEncryptCache = ''/tmp'', SSHService = ''ssh-server'',
      DockerCfgRegistry = [], DockerCfgUsername = [], DockerCfgPassword = [],
      DockerCfgEmail = [], DockerCfgAuth = [],
      PrometheusPort = '':9000'', PrometheusPath = ''/metrics'', PrometheusApache = 9117\<rparr>"

text \<open>The server sub command given both a certificate and a key path, and a certificate only.\<close>

definition serverCertAndKey :: cmdServer where
  "serverCertAndKey = serverDefaults\<lparr>TLSCert := ''tls.crt'', TLSKey := ''tls.key''\<rparr>"

definition serverCertOnly :: cmdServer where
  "serverCertOnly = serverDefaults\<lparr>TLSCert := ''tls.crt''\<rparr>"

text \<open>The defaults of the flag variables of the earlier \<open>main\<close>.\<close>

definition flagDefaults :: flags where
  "flagDefaults =
     \<lparr>cliPort = 443, cliCert = [], cliKey = [], cliToken = [],
      cliNamespace = ''default'', cliCacheSize = ''100Gi'',
      cliLetsEncryptEmail = ''admin@previousnext.com.au'', cliLetsEncryptDomain = [],
      cliLetsEncryptCache = ''/tmp'',
      cliBlackDeathImage = ''previousnext/k8s-black-death'', cliBlackDeathVersion = ''0.0.2'',
      cliTraefikImage = ''traefik'', cliTraefikVersion = ''1.3'', cliTraefikPort = 80,
      cliSSHImage = ''previousnext/k8s-ssh-server'', cliSSHVersion = ''0.0.5'', cliSSHPort = 2222\<rparr>"

text \<open>
  A cluster that answers every call without error; its state is the list of addons
  installed so far. Two variants: the remote-shell addon is refused, and the certificate file
  cannot be read.
\<close>

definition clusterOK :: "string list sys" where
  "clusterOK =
     \<lparr>net_Listen = (\<lambda>_. None), rest_InClusterConfig = None, client_NewForConfig = None,
      server_New = (\<lambda>token ns ssh fs apache registry. None),
      credentials_NewServerTLSFromFile =
        (\<lambda>c k. Inr (NewTLS \<lparr>Certificates = [c], GetCertificate = None\<rparr>)),
      addons_CreateTraefik = (\<lambda>ns img ver port k. (None, k @ [''traefik''])),
      addons_CreateSSHServer = (\<lambda>ns img ver port k. (None, k @ [''ssh-server''])),
      addons_CreateBlackDeath = (\<lambda>ns img ver k. (None, k @ [''black-death'']))\<rparr>"

definition clusterSSHRefused :: "string list sys" where
  "clusterSSHRefused =
     clusterOK\<lparr>addons_CreateSSHServer := (\<lambda>ns img ver port k. (Some (Failure ''forbidden''), k))\<rparr>"

definition clusterCertUnreadable :: "string list sys" where
  "clusterCertUnreadable =
     clusterOK\<lparr>credentials_NewServerTLSFromFile :=
       (\<lambda>c k. Inl (Failure ''open tls.crt: no such file or directory''))\<rparr>"

text \<open>A quantity parser that knows two sizes, in bytes.\<close>

definition parseTwoSizes :: "string \<Rightarrow> nat option" where
  "parseTwoSizes x =
     (if x = ''100Gi'' then Some 107374182400 else if x = ''1Gi'' then Some 1073741824 else None)"

text \<open>An orchestrator that has served nothing yet, its cache claim in place, and no faults.\<close>

definition freshOrchestrator :: "string orchestrator" where
  "freshOrchestrator =
     \<lparr>environments = Map.empty, workloads = Map.empty, routes = Map.empty,
      secrets = Map.empty, cacheClaim = Some ''cache''\<rparr>"

definition noFault :: "resource \<Rightarrow> bool" where
  "noFault r = False"

text \<open>
  An orchestrator in the middle of provisioning \<open>pr-42\<close> (the secret exists, the workload
  does not yet), and the one that has built \<open>pr-123\<close>.
\<close>

definition provisioningOrchestrator :: "string orchestrator" where
  "provisioningOrchestrator =
     freshOrchestrator\<lparr>environments :=
        [''pr-42'' \<mapsto> \<lparr>status = Provisioning, requestedAt = 100, ttl = 86400,
                       registryCredential = ''regcred'', desiredImage = ''app:1.0''\<rparr>],
       secrets := [''pr-42'' \<mapsto> ''regcred'']\<rparr>"

definition readyOrchestrator :: "string orchestrator" where
  "readyOrchestrator =
     snd (Build 100 noFault ''pr-123'' ''app:1.0'' ''regcred'' 86400 freshOrchestrator)"

section \<open>Running the startup programs\<close>

text \<open>Rules that execute one step of a startup program on a world.\<close>

lemma bind_emit: "bind (emit ev) f w = f () (w\<lparr>trace := trace w @ [ev]\<rparr>)"
  by (simp add: bind_def emit_def)

lemma must_Inr: "bind (must c (Inr a)) f w = f a (w\<lparr>trace := trace w @ [Enter c, Leave c None]\<rparr>)"
  by (simp add: must_def bind_def emit_def ret_def)

lemma must_Inl: "bind (must c (Inl e)) f w = (Inl e, w\<lparr>trace := trace w @ [Enter c, Leave c (Some e)]\<rparr>)"
  by (simp add: must_def bind_def emit_def panic_def)

lemma must_Inr': "must c (Inr a) w = (Inr a, w\<lparr>trace := trace w @ [Enter c, Leave c None]\<rparr>)"
  by (simp add: must_def bind_def emit_def ret_def)

lemma must_Inl': "must c (Inl e) w = (Inl e, w\<lparr>trace := trace w @ [Enter c, Leave c (Some e)]\<rparr>)"
  by (simp add: must_def bind_def emit_def panic_def)

lemma mustCluster_bind:
  "bind (mustCluster c g) f w =
     (case g (cluster w) of
        (None, k') \<Rightarrow> f () (w\<lparr>cluster := k', trace := trace w @ [Enter c, Leave c None]\<rparr>)
      | (Some e, k') \<Rightarrow> (Inl e, w\<lparr>cluster := k', trace := trace w @ [Enter c, Leave c (Some e)]\<rparr>))"
  by (simp add: mustCluster_def bind_def emit_def split: prod.splits option.splits)

lemma emit_apply: "emit ev w = (Inr (), w\<lparr>trace := trace w @ [ev]\<rparr>)"
  by (simp add: emit_def)

lemmas exec = bind_emit must_Inl must_Inr must_Inl' must_Inr' mustCluster_bind orErr_def start_def
  emit_apply newServer_def

text \<open>
  The paths of \<open>cmdServer.run\<close> from process start, one lemma for each place where it can
  stop: the answers of the collaborators that lead there, and the outcome and world reached.
\<close>

lemma run_listen_fails:
  assumes "net_Listen sys (Port cmd) = Some e"
  shows "run sys cmd (start k) =
    (Inl e, \<lparr>trace = runPrefix cmd @ [Leave (NetListen (Port cmd)) (Some e)], cluster = k\<rparr>)"
  using assms by (simp add: run_def exec runPrefix_def)

lemma run_config_fails:
  assumes "net_Listen sys (Port cmd) = None" "rest_InClusterConfig sys = Some e"
  shows "run sys cmd (start k) =
    (Inl e, \<lparr>trace = runPrefix cmd @ [Leave (NetListen (Port cmd)) None,
        Enter InClusterConfig, Leave InClusterConfig (Some e)], cluster = k\<rparr>)"
  using assms by (simp add: run_def exec runPrefix_def)

lemma run_client_fails:
  assumes "net_Listen sys (Port cmd) = None" "rest_InClusterConfig sys = None"
    "client_NewForConfig sys = Some e"
  shows "run sys cmd (start k) =
    (Inl e, \<lparr>trace = runPrefix cmd @ [Leave (NetListen (Port cmd)) None,
        Enter InClusterConfig, Leave InClusterConfig None,
        Enter NewForConfig, Leave NewForConfig (Some e)], cluster = k\<rparr>)"
  using assms by (simp add: run_def exec runPrefix_def)

lemma run_server_fails:
  assumes "net_Listen sys (Port cmd) = None" "rest_InClusterConfig sys = None"
    "client_NewForConfig sys = None" "newServer sys cmd = Some e"
  shows "run sys cmd (start k) =
    (Inl e, \<lparr>trace = runBooted cmd @ [Leave ServerNew (Some e)], cluster = k\<rparr>)"
  using assms by (simp add: run_def exec runPrefix_def runBooted_def)

lemma run_static_fails:
  assumes "net_Listen sys (Port cmd) = None" "rest_InClusterConfig sys = None"
    "client_NewForConfig sys = None" "newServer sys cmd = None"
    "TLSCert cmd \<noteq> []" "TLSKey cmd \<noteq> []"
    "credentials_NewServerTLSFromFile sys (TLSCert cmd) (TLSKey cmd) = Inl e"
  shows "run sys cmd (start k) =
    (Inl e, \<lparr>trace = runBooted cmd @ [Leave ServerNew None,
        Enter (NewServerTLSFromFile (TLSCert cmd) (TLSKey cmd)),
        Leave (NewServerTLSFromFile (TLSCert cmd) (TLSKey cmd)) (Some e)], cluster = k\<rparr>)"
  using assms by (simp add: run_def exec runPrefix_def runBooted_def)

lemma run_static_serves:
  assumes "net_Listen sys (Port cmd) = None" "rest_InClusterConfig sys = None"
    "client_NewForConfig sys = None" "newServer sys cmd = None"
    "TLSCert cmd \<noteq> []" "TLSKey cmd \<noteq> []"
    "credentials_NewServerTLSFromFile sys (TLSCert cmd) (TLSKey cmd) = Inr creds"
  shows "run sys cmd (start k) =
    (Inr (), \<lparr>trace = runBooted cmd @ [Leave ServerNew None,
        Enter (NewServerTLSFromFile (TLSCert cmd) (TLSKey cmd)),
        Leave (NewServerTLSFromFile (TLSCert cmd) (TLSKey cmd)) None,
        Serve (Port cmd) creds], cluster = k\<rparr>)"
  using assms by (simp add: run_def exec runPrefix_def runBooted_def)

lemma getLetsEncrypt_creds: "getLetsEncrypt d e c = Inr (letsEncryptCreds d e c)"
  by (simp add: getLetsEncrypt_def letsEncryptCreds_def)

lemma run_letsencrypt_serves:
  assumes "net_Listen sys (Port cmd) = None" "rest_InClusterConfig sys = None"
    "client_NewForConfig sys = None" "newServer sys cmd = None"
    "TLSCert cmd = [] \<or> TLSKey cmd = []"
  shows "run sys cmd (start k) =
    (Inr (), \<lparr>trace = runBooted cmd @ [Leave ServerNew None,
        Enter (GetLetsEncrypt (LetsEncryptDomain cmd) (LetsEncryptEmail cmd) (LetsEncryptCache cmd)),
        Leave (GetLetsEncrypt (LetsEncryptDomain cmd) (LetsEncryptEmail cmd) (LetsEncryptCache cmd)) None,
        Serve (Port cmd) (letsEncryptCreds (LetsEncryptDomain cmd) (LetsEncryptEmail cmd)
           (LetsEncryptCache cmd))], cluster = k\<rparr>)"
proof -
  have sel: "(TLSCert cmd \<noteq> [] \<and> TLSKey cmd \<noteq> []) = False" using assms(5) by blast
  show ?thesis
    using assms(1-4) by (simp add: run_def exec runPrefix_def runBooted_def getLetsEncrypt_creds sel)
qed

text \<open>Every run of \<open>cmdServer.run\<close> takes one of these paths.\<close>

lemma run_cases:
  obtains
    (listen) e where "net_Listen sys (Port cmd) = Some e"
      "run sys cmd (start k) =
        (Inl e, \<lparr>trace = runPrefix cmd @ [Leave (NetListen (Port cmd)) (Some e)], cluster = k\<rparr>)"
  | (config) e where "net_Listen sys (Port cmd) = None" "rest_InClusterConfig sys = Some e"
      "run sys cmd (start k) =
        (Inl e, \<lparr>trace = runPrefix cmd @ [Leave (NetListen (Port cmd)) None,
            Enter InClusterConfig, Leave InClusterConfig (Some e)], cluster = k\<rparr>)"
  | (client) e where "net_Listen sys (Port cmd) = None" "rest_InClusterConfig sys = None"
      "client_NewForConfig sys = Some e"
      "run sys cmd (start k) =
        (Inl e, \<lparr>trace = runPrefix cmd @ [Leave (NetListen (Port cmd)) None,
            Enter InClusterConfig, Leave InClusterConfig None,
            Enter NewForConfig, Leave NewForConfig (Some e)], cluster = k\<rparr>)"
  | (server) e where "net_Listen sys (Port cmd) = None" "rest_InClusterConfig sys = None"
      "client_NewForConfig sys = None" "newServer sys cmd = Some e"
      "run sys cmd (start k) =
        (Inl e, \<lparr>trace = runBooted cmd @ [Leave ServerNew (Some e)], cluster = k\<rparr>)"
  | (static_fails) e where "net_Listen sys (Port cmd) = None" "rest_InClusterConfig sys = None"
      "client_NewForConfig sys = None" "newServer sys cmd = None"
      "TLSCert cmd \<noteq> []" "TLSKey cmd \<noteq> []"
      "credentials_NewServerTLSFromFile sys (TLSCert cmd) (TLSKey cmd) = Inl e"
      "run sys cmd (start k) =
        (Inl e, \<lparr>trace = runBooted cmd @ [Leave ServerNew None,
            Enter (NewServerTLSFromFile (TLSCert cmd) (TLSKey cmd)),
            Leave (NewServerTLSFromFile (TLSCert cmd) (TLSKey cmd)) (Some e)], cluster = k\<rparr>)"
  | (static_serves) creds where "net_Listen sys (Port cmd) = None" "rest_InClusterConfig sys = None"
      "client_NewForConfig sys = None" "newServer sys cmd = None"
      "TLSCert cmd \<noteq> []" "TLSKey cmd \<noteq> []"
      "credentials_NewServerTLSFromFile sys (TLSCert cmd) (TLSKey cmd) = Inr creds"
      "run sys cmd (start k) =
        (Inr (), \<lparr>trace = runBooted cmd @ [Leave ServerNew None,
            Enter (NewServerTLSFromFile (TLSCert cmd) (TLSKey cmd)),
            Leave (NewServerTLSFromFile (TLSCert cmd) (TLSKey cmd)) None,
            Serve (Port cmd) creds], cluster = k\<rparr>)"
  | (letsencrypt) "net_Listen sys (Port cmd) = None" "rest_InClusterConfig sys = None"
      "client_NewForConfig sys = None" "newServer sys cmd = None"
      "TLSCert cmd = [] \<or> TLSKey cmd = []"
      "run sys cmd (start k) =
        (Inr (), \<lparr>trace = runBooted cmd @ [Leave ServerNew None,
            Enter (GetLetsEncrypt (LetsEncryptDomain cmd) (LetsEncryptEmail cmd) (LetsEncryptCache cmd)),
            Leave (GetLetsEncrypt (LetsEncryptDomain cmd) (LetsEncryptEmail cmd) (LetsEncryptCache cmd)) None,
            Serve (Port cmd) (letsEncryptCreds (LetsEncryptDomain cmd) (LetsEncryptEmail cmd)
               (LetsEncryptCache cmd))], cluster = k\<rparr>)"
proof (cases "net_Listen sys (Port cmd)")
  case (Some e)
  show ?thesis by (rule listen [OF Some run_listen_fails [OF Some]])
next
  case l: None
  show ?thesis
  proof (cases "rest_InClusterConfig sys")
    case (Some e)
    show ?thesis by (rule config [OF l Some run_config_fails [OF l Some]])
  next
    case c: None
    show ?thesis
    proof (cases "client_NewForConfig sys")
      case (Some e)
      show ?thesis by (rule client [OF l c Some run_client_fails [OF l c Some]])
    next
      case n: None
      show ?thesis
      proof (cases "newServer sys cmd")
        case (Some e)
        show ?thesis by (rule server [OF l c n Some run_server_fails [OF l c n Some]])
      next
        case s: None
        show ?thesis
        proof (cases "TLSCert cmd \<noteq> [] \<and> TLSKey cmd \<noteq> []")
          case True
          show ?thesis
          proof (cases "credentials_NewServerTLSFromFile sys (TLSCert cmd) (TLSKey cmd)")
            case (Inl e)
            show ?thesis using True by (intro static_fails [OF l c n s _ _ Inl run_static_fails [OF l c n s _ _ Inl]]) simp_all
          next
            case (Inr creds)
            show ?thesis using True by (intro static_serves [OF l c n s _ _ Inr run_static_serves [OF l c n s _ _ Inr]]) simp_all
          qed
        next
          case False
          then have le: "TLSCert cmd = [] \<or> TLSKey cmd = []" by blast
          show ?thesis
            by (rule letsencrypt [OF l c n s le run_letsencrypt_serves [OF l c n s le]])
        qed
      qed
    qed
  qed
qed

text \<open>The paths of the earlier \<open>main\<close>, in the same way.\<close>

lemmas mainTraces = mainPrefix_def mainClient_def mainTraefik_def mainSSH_def mainAddons_def
  traefikCall_def sshCall_def blackDeathCall_def createTraefik_def createSSHServer_def
  createBlackDeath_def

lemma main_listen_fails:
  assumes "net_Listen sys (cliPort cli) = Some e"
  shows "main sys cli (start k) =
    (Inl e, \<lparr>trace = mainPrefix cli @ [Leave (NetListen (cliPort cli)) (Some e)], cluster = k\<rparr>)"
  using assms by (simp add: main_def exec mainTraces)

lemma main_config_fails:
  assumes "net_Listen sys (cliPort cli) = None" "rest_InClusterConfig sys = Some e"
  shows "main sys cli (start k) =
    (Inl e, \<lparr>trace = mainPrefix cli @ [Leave (NetListen (cliPort cli)) None,
        Enter InClusterConfig, Leave InClusterConfig (Some e)], cluster = k\<rparr>)"
  using assms by (simp add: main_def exec mainTraces)

lemma main_client_fails:
  assumes "net_Listen sys (cliPort cli) = None" "rest_InClusterConfig sys = None"
    "client_NewForConfig sys = Some e"
  shows "main sys cli (start k) =
    (Inl e, \<lparr>trace = mainPrefix cli @ [Leave (NetListen (cliPort cli)) None,
        Enter InClusterConfig, Leave InClusterConfig None,
        Enter NewForConfig, Leave NewForConfig (Some e)], cluster = k\<rparr>)"
  using assms by (simp add: main_def exec mainTraces)

lemma main_traefik_fails:
  assumes "net_Listen sys (cliPort cli) = None" "rest_InClusterConfig sys = None"
    "client_NewForConfig sys = None"
    "createTraefik sys cli k = (Some e, k1)"
  shows "main sys cli (start k) =
    (Inl e, \<lparr>trace = mainClient cli @ [Leave (traefikCall cli) (Some e)], cluster = k1\<rparr>)"
  using assms by (simp add: main_def exec mainTraces)

lemma main_ssh_fails:
  assumes "net_Listen sys (cliPort cli) = None" "rest_InClusterConfig sys = None"
    "client_NewForConfig sys = None"
    "createTraefik sys cli k = (None, k1)"
    "createSSHServer sys cli k1 = (Some e, k2)"
  shows "main sys cli (start k) =
    (Inl e, \<lparr>trace = mainTraefik cli @ [Leave (sshCall cli) (Some e)], cluster = k2\<rparr>)"
  using assms by (simp add: main_def exec mainTraces)

lemma main_blackDeath_fails:
  assumes "net_Listen sys (cliPort cli) = None" "rest_InClusterConfig sys = None"
    "client_NewForConfig sys = None"
    "createTraefik sys cli k = (None, k1)"
    "createSSHServer sys cli k1 = (None, k2)"
    "createBlackDeath sys cli k2 = (Some e, k3)"
  shows "main sys cli (start k) =
    (Inl e, \<lparr>trace = mainSSH cli @ [Leave (blackDeathCall cli) (Some e)], cluster = k3\<rparr>)"
  using assms by (simp add: main_def exec mainTraces)

lemma main_static_fails:
  assumes "net_Listen sys (cliPort cli) = None" "rest_InClusterConfig sys = None"
    "client_NewForConfig sys = None"
    "createTraefik sys cli k = (None, k1)"
    "createSSHServer sys cli k1 = (None, k2)"
    "createBlackDeath sys cli k2 = (None, k3)"
    "cliCert cli \<noteq> []" "cliKey cli \<noteq> []"
    "credentials_NewServerTLSFromFile sys (cliCert cli) (cliKey cli) = Inl e"
  shows "main sys cli (start k) =
    (Inl e, \<lparr>trace = mainAddons cli @
       [Enter (NewServerTLSFromFile (cliCert cli) (cliKey cli)),
        Leave (NewServerTLSFromFile (cliCert cli) (cliKey cli)) (Some e)], cluster = k3\<rparr>)"
  using assms by (simp add: main_def exec mainTraces)

lemma main_static_serves:
  assumes "net_Listen sys (cliPort cli) = None" "rest_InClusterConfig sys = None"
    "client_NewForConfig sys = None"
    "createTraefik sys cli k = (None, k1)"
    "createSSHServer sys cli k1 = (None, k2)"
    "createBlackDeath sys cli k2 = (None, k3)"
    "cliCert cli \<noteq> []" "cliKey cli \<noteq> []"
    "credentials_NewServerTLSFromFile sys (cliCert cli) (cliKey cli) = Inr creds"
  shows "main sys cli (start k) =
    (Inr (), \<lparr>trace = mainAddons cli @
       [Enter (NewServerTLSFromFile (cliCert cli) (cliKey cli)),
        Leave (NewServerTLSFromFile (cliCert cli) (cliKey cli)) None,
        Serve (cliPort cli) creds], cluster = k3\<rparr>)"
  using assms by (simp add: main_def exec mainTraces)

lemma main_letsencrypt_serves:
  assumes "net_Listen sys (cliPort cli) = None" "rest_InClusterConfig sys = None"
    "client_NewForConfig sys = None"
    "createTraefik sys cli k = (None, k1)"
    "createSSHServer sys cli k1 = (None, k2)"
    "createBlackDeath sys cli k2 = (None, k3)"
    "cliCert cli = [] \<or> cliKey cli = []"
  shows "main sys cli (start k) =
    (Inr (), \<lparr>trace = mainAddons cli @
       [Enter (GetLetsEncrypt (cliLetsEncryptDomain cli) (cliLetsEncryptEmail cli) (cliLetsEncryptCache cli)),
        Leave (GetLetsEncrypt (cliLetsEncryptDomain cli) (cliLetsEncryptEmail cli) (cliLetsEncryptCache cli)) None,
        Serve (cliPort cli) (letsEncryptCreds (cliLetsEncryptDomain cli) (cliLetsEncryptEmail cli)
           (cliLetsEncryptCache cli))], cluster = k3\<rparr>)"
proof -
  have sel: "(cliCert cli \<noteq> [] \<and> cliKey cli \<noteq> []) = False" using assms(7) by blast
  show ?thesis
    using assms(1-6) by (simp add: main_def exec mainTraces getLetsEncrypt_creds sel)
qed

text \<open>Every run of the earlier \<open>main\<close> takes one of these paths.\<close>

lemma main_cases:
  obtains
    (listen) e where "net_Listen sys (cliPort cli) = Some e"
      "main sys cli (start k) =
        (Inl e, \<lparr>trace = mainPrefix cli @ [Leave (NetListen (cliPort cli)) (Some e)], cluster = k\<rparr>)"
  | (config) e where "net_Listen sys (cliPort cli) = None" "rest_InClusterConfig sys = Some e"
      "main sys cli (start k) =
        (Inl e, \<lparr>trace = mainPrefix cli @ [Leave (NetListen (cliPort cli)) None,
            Enter InClusterConfig, Leave InClusterConfig (Some e)], cluster = k\<rparr>)"
  | (client) e where "net_Listen sys (cliPort cli) = None" "rest_InClusterConfig sys = None"
      "client_NewForConfig sys = Some e"
      "main sys cli (start k) =
        (Inl e, \<lparr>trace = mainPrefix cli @ [Leave (NetListen (cliPort cli)) None,
            Enter InClusterConfig, Leave InClusterConfig None,
            Enter NewForConfig, Leave NewForConfig (Some e)], cluster = k\<rparr>)"
  | (traefik) e k1 where "net_Listen sys (cliPort cli) = None" "rest_InClusterConfig sys = None"
      "client_NewForConfig sys = None"
      "createTraefik sys cli k = (Some e, k1)"
      "main sys cli (start k) =
        (Inl e, \<lparr>trace = mainClient cli @ [Leave (traefikCall cli) (Some e)], cluster = k1\<rparr>)"
  | (ssh) e k1 k2 where "net_Listen sys (cliPort cli) = None" "rest_InClusterConfig sys = None"
      "client_NewForConfig sys = None"
      "createTraefik sys cli k = (None, k1)"
      "createSSHServer sys cli k1 = (Some e, k2)"
      "main sys cli (start k) =
        (Inl e, \<lparr>trace = mainTraefik cli @ [Leave (sshCall cli) (Some e)], cluster = k2\<rparr>)"
  | (blackDeath) e k1 k2 k3 where "net_Listen sys (cliPort cli) = None" "rest_InClusterConfig sys = None"
      "client_NewForConfig sys = None"
      "createTraefik sys cli k = (None, k1)"
      "createSSHServer sys cli k1 = (None, k2)"
      "createBlackDeath sys cli k2 = (Some e, k3)"
      "main sys cli (start k) =
        (Inl e, \<lparr>trace = mainSSH cli @ [Leave (blackDeathCall cli) (Some e)], cluster = k3\<rparr>)"
  | (static_fails) e k1 k2 k3 where "net_Listen sys (cliPort cli) = None" "rest_InClusterConfig sys = None"
      "client_NewForConfig sys = None"
      "createTraefik sys cli k = (None, k1)"
      "createSSHServer sys cli k1 = (None, k2)"
      "createBlackDeath sys cli k2 = (None, k3)"
      "cliCert cli \<noteq> []" "cliKey cli \<noteq> []"
      "credentials_NewServerTLSFromFile sys (cliCert cli) (cliKey cli) = Inl e"
      "main sys cli (start k) =
        (Inl e, \<lparr>trace = mainAddons cli @
           [Enter (NewServerTLSFromFile (cliCert cli) (cliKey cli)),
            Leave (NewServerTLSFromFile (cliCert cli) (cliKey cli)) (Some e)], cluster = k3\<rparr>)"
  | (static_serves) creds k1 k2 k3 where "net_Listen sys (cliPort cli) = None" "rest_InClusterConfig sys = None"
      "client_NewForConfig sys = None"
      "createTraefik sys cli k = (None, k1)"
      "createSSHServer sys cli k1 = (None, k2)"
      "createBlackDeath sys cli k2 = (None, k3)"
      "cliCert cli \<noteq> []" "cliKey cli \<noteq> []"
      "credentials_NewServerTLSFromFile sys (cliCert cli) (cliKey cli) = Inr creds"
      "main sys cli (start k) =
        (Inr (), \<lparr>trace = mainAddons cli @
           [Enter (NewServerTLSFromFile (cliCert cli) (cliKey cli)),
            Leave (NewServerTLSFromFile (cliCert cli) (cliKey cli)) None,
            Serve (cliPort cli) creds], cluster = k3\<rparr>)"
  | (letsencrypt) k1 k2 k3 where "net_Listen sys (cliPort cli) = None" "rest_InClusterConfig sys = None"
      "client_NewForConfig sys = None"
      "createTraefik sys cli k = (None, k1)"
      "createSSHServer sys cli k1 = (None, k2)"
      "createBlackDeath sys cli k2 = (None, k3)"
      "cliCert cli = [] \<or> cliKey cli = []"
      "main sys cli (start k) =
        (Inr (), \<lparr>trace = mainAddons cli @
           [Enter (GetLetsEncrypt (cliLetsEncryptDomain cli) (cliLetsEncryptEmail cli) (cliLetsEncryptCache cli)),
            Leave (GetLetsEncrypt (cliLetsEncryptDomain cli) (cliLetsEncryptEmail cli) (cliLetsEncryptCache cli)) None,
            Serve (cliPort cli) (letsEncryptCreds (cliLetsEncryptDomain cli) (cliLetsEncryptEmail cli)
               (cliLetsEncryptCache cli))], cluster = k3\<rparr>)"
proof (cases "net_Listen sys (cliPort cli)")
  case (Some e)
  show ?thesis by (rule listen [OF Some main_listen_fails [OF Some]])
next
  case l: None
  show ?thesis
  proof (cases "rest_InClusterConfig sys")
    case (Some e)
    show ?thesis by (rule config [OF l Some main_config_fails [OF l Some]])
  next
    case c: None
    show ?thesis
    proof (cases "client_NewForConfig sys")
      case (Some e)
      show ?thesis by (rule client [OF l c Some main_client_fails [OF l c Some]])
    next
      case n: None
      obtain r1 k1 where t: "createTraefik sys cli k = (r1, k1)" by (cases "createTraefik sys cli k")
      show ?thesis
      proof (cases r1)
        case (Some e)
        with t have t': "createTraefik sys cli k = (Some e, k1)" by simp
        show ?thesis by (rule traefik [OF l c n t' main_traefik_fails [OF l c n t']])
      next
        case None
        with t have t': "createTraefik sys cli k = (None, k1)" by simp
        obtain r2 k2 where s: "createSSHServer sys cli k1 = (r2, k2)" by (cases "createSSHServer sys cli k1")
        show ?thesis
        proof (cases r2)
          case (Some e)
          with s have s': "createSSHServer sys cli k1 = (Some e, k2)" by simp
          show ?thesis by (rule ssh [OF l c n t' s' main_ssh_fails [OF l c n t' s']])
        next
          case None
          with s have s': "createSSHServer sys cli k1 = (None, k2)" by simp
          obtain r3 k3 where b: "createBlackDeath sys cli k2 = (r3, k3)" by (cases "createBlackDeath sys cli k2")
          show ?thesis
          proof (cases r3)
            case (Some e)
            with b have b': "createBlackDeath sys cli k2 = (Some e, k3)" by simp
            show ?thesis by (rule blackDeath [OF l c n t' s' b' main_blackDeath_fails [OF l c n t' s' b']])
          next
            case None
            with b have b': "createBlackDeath sys cli k2 = (None, k3)" by simp
            show ?thesis
            proof (cases "cliCert cli \<noteq> [] \<and> cliKey cli \<noteq> []")
              case True
              then have ne: "cliCert cli \<noteq> []" "cliKey cli \<noteq> []" by simp_all
              show ?thesis
              proof (cases "credentials_NewServerTLSFromFile sys (cliCert cli) (cliKey cli)")
                case (Inl e)
                show ?thesis
                  by (rule static_fails [OF l c n t' s' b' ne Inl main_static_fails [OF l c n t' s' b' ne Inl]])
              next
                case (Inr creds)
                show ?thesis
                  by (rule static_serves [OF l c n t' s' b' ne Inr main_static_serves [OF l c n t' s' b' ne Inr]])
              qed
            next
              case False
              then have le: "cliCert cli = [] \<or> cliKey cli = []" by blast
              show ?thesis
                by (rule letsencrypt [OF l c n t' s' b' le main_letsencrypt_serves [OF l c n t' s' b' le]])
            qed
          qed
        qed
      qed
    qed
  qed
qed

text \<open>Unfolding the vocabulary of the statements.\<close>

lemmas traces = runPrefix_def runBooted_def serves_def panicked_def
lemmas readers = mainTraces serves_def panicked_def addonEvents_def

section \<open>The addon bootstrap\<close>


text \<open>The run of the earlier \<open>main\<close> with its default flags on a cluster without errors.\<close>

lemma main_clusterOK:
  "main clusterOK flagDefaults (start []) =
     (Inr (), \<lparr>trace = mainAddons flagDefaults @
        [Enter (GetLetsEncrypt [] ''admin@previousnext.com.au'' ''/tmp''),
         Leave (GetLetsEncrypt [] ''admin@previousnext.com.au'' ''/tmp'') None,
         Serve 443 (letsEncryptCreds [] ''admin@previousnext.com.au'' ''/tmp'')],
       cluster = [''traefik'', ''ssh-server'', ''black-death'']\<rparr>)"
  using main_letsencrypt_serves [of clusterOK flagDefaults "[]" "[''traefik'']"
      "[''traefik'', ''ssh-server'']" "[''traefik'', ''ssh-server'', ''black-death'']"]
  by (simp add: clusterOK_def flagDefaults_def createTraefik_def createSSHServer_def
      createBlackDeath_def)


text \<open>
  Claim C6. During the addon bootstrap of the earlier \<open>main\<close>, an error returned by any of
  the three addon constructors, other than the already-exists condition, aborts startup:
  the process panics with that error, the return of the constructor is the last event of
  the run, and the server never serves.
\<close>

theorem addon_error_aborts_startup:
  assumes ev: "Leave c (Some e) \<in> set (trace (snd (main sys cli (start k))))"
    and addon: "isAddon c" and other: "e \<noteq> AlreadyExists"
  shows "fst (main sys cli (start k)) = Inl e
       \<and> \<not> serves (main sys cli (start k))
       \<and> last (trace (snd (main sys cli (start k)))) = Leave c (Some e)"
proof (cases rule: main_cases [of sys cli k])
  case (listen e')
  show ?thesis using ev addon by (auto simp add: listen(2) readers)
next
  case (config e')
  show ?thesis using ev addon by (auto simp add: config(3) readers)
next
  case (client e')
  show ?thesis using ev addon by (auto simp add: client(4) readers)
next
  case (traefik e' k1)
  show ?thesis using ev addon by (auto simp add: traefik(5) readers)
next
  case (ssh e' k1 k2)
  show ?thesis using ev addon by (auto simp add: ssh(6) readers)
next
  case (blackDeath e' k1 k2 k3)
  show ?thesis using ev addon by (auto simp add: blackDeath(7) readers)
next
  case (static_fails e' k1 k2 k3)
  show ?thesis using ev addon by (auto simp add: static_fails(10) readers)
next
  case (static_serves creds k1 k2 k3)
  show ?thesis using ev addon by (auto simp add: static_serves(10) readers)
next
  case (letsencrypt k1 k2 k3)
  show ?thesis using ev addon by (auto simp add: letsencrypt(8) readers)
qed

text \<open>The run of the earlier \<open>main\<close> on the cluster that refuses the remote-shell addon.\<close>

lemma main_clusterSSHRefused:
  "main clusterSSHRefused flagDefaults (start []) =
     (Inl (Failure ''forbidden''),
      \<lparr>trace = mainTraefik flagDefaults @ [Leave (sshCall flagDefaults) (Some (Failure ''forbidden''))],
       cluster = [''traefik'']\<rparr>)"
  using main_ssh_fails [of clusterSSHRefused flagDefaults "[]" "[''traefik'']"
      "Failure ''forbidden''" "[''traefik'']"]
  by (simp add: clusterSSHRefused_def clusterOK_def flagDefaults_def createTraefik_def
      createSSHServer_def)

theorem addon_error_aborts_startup_witness:
  "Leave (sshCall flagDefaults) (Some (Failure ''forbidden''))
      \<in> set (trace (snd (main clusterSSHRefused flagDefaults (start []))))
   \<and> isAddon (sshCall flagDefaults) \<and> Failure ''forbidden'' \<noteq> AlreadyExists
   \<and> fst (main clusterSSHRefused flagDefaults (start [])) = Inl (Failure ''forbidden'')
   \<and> \<not> serves (main clusterSSHRefused flagDefaults (start []))"
proof -
  have ev: "Leave (sshCall flagDefaults) (Some (Failure ''forbidden''))
      \<in> set (trace (snd (main clusterSSHRefused flagDefaults (start []))))"
    by (simp add: main_clusterSSHRefused)
  have addon: "isAddon (sshCall flagDefaults)" by (simp add: sshCall_def)
  have other: "Failure ''forbidden'' \<noteq> AlreadyExists" by simp
  show ?thesis
    using ev addon other addon_error_aborts_startup [OF ev addon other] by simp
qed

section \<open>The transport credentials\<close>

text \<open>
  Claim C7, as amended. In \<open>cmdServer.run\<close>, failing to load the static credentials is
  fatal: when both the certificate path and the key path are given and
  \<open>credentials.NewServerTLSFromFile\<close> returns an error (files missing or invalid), the run
  panics and never serves, and when the startup steps before it succeeded it panics with
  that very error. The automated path has no failure at startup: whenever one of the two
  paths is missing, a run that reaches the credential step serves and does not panic.
\<close>

theorem static_credential_failure_is_fatal:
  "(TLSCert cmd \<noteq> [] \<and> TLSKey cmd \<noteq> []
      \<and> credentials_NewServerTLSFromFile sys (TLSCert cmd) (TLSKey cmd) = Inl e
    \<longrightarrow> panicked (run sys cmd (start k)) \<and> \<not> serves (run sys cmd (start k))
        \<and> (net_Listen sys (Port cmd) = None \<and> rest_InClusterConfig sys = None
             \<and> client_NewForConfig sys = None \<and> newServer sys cmd = None
            \<longrightarrow> fst (run sys cmd (start k)) = Inl e))
   \<and> ((TLSCert cmd = [] \<or> TLSKey cmd = [])
      \<and> net_Listen sys (Port cmd) = None \<and> rest_InClusterConfig sys = None
      \<and> client_NewForConfig sys = None \<and> newServer sys cmd = None
    \<longrightarrow> serves (run sys cmd (start k)) \<and> \<not> panicked (run sys cmd (start k)))"
proof (cases rule: run_cases [of sys cmd k])
  case (listen e')
  show ?thesis by (simp add: listen traces)
next
  case (config e')
  show ?thesis by (simp add: config traces)
next
  case (client e')
  show ?thesis by (simp add: client traces)
next
  case (server e')
  show ?thesis by (simp add: server traces)
next
  case (static_fails e')
  show ?thesis using static_fails(5,6) by (simp add: static_fails(1,2,3,4,7,8) traces)
next
  case (static_serves creds)
  show ?thesis using static_serves(5,6) by (simp add: static_serves(1,2,3,4,7,8) traces)
next
  case letsencrypt
  show ?thesis using letsencrypt(5) by (auto simp add: letsencrypt(1,2,3,4,6) traces)
qed

text \<open>
  The run of the server sub command given both paths where the files cannot be read, and
  given the certificate path only on the same machine.
\<close>

lemma run_certAndKey_unreadable:
  "run clusterCertUnreadable serverCertAndKey (start []) =
     (Inl (Failure ''open tls.crt: no such file or directory''),
      \<lparr>trace = runBooted serverCertAndKey @ [Leave ServerNew None,
         Enter (NewServerTLSFromFile ''tls.crt'' ''tls.key''),
         Leave (NewServerTLSFromFile ''tls.crt'' ''tls.key'')
           (Some (Failure ''open tls.crt: no such file or directory''))],
       cluster = []\<rparr>)"
  using run_static_fails [of clusterCertUnreadable serverCertAndKey
      "Failure ''open tls.crt: no such file or directory''" "[]"]
  by (simp add: clusterCertUnreadable_def clusterOK_def serverCertAndKey_def serverDefaults_def
      newServer_def)

lemma run_certOnly_unreadable:
  "run clusterCertUnreadable serverCertOnly (start []) =
     (Inr (), \<lparr>trace = runBooted serverCertOnly @ [Leave ServerNew None,
        Enter (GetLetsEncrypt [] ''admin@previousnext.com.au'' ''/tmp''),
        Leave (GetLetsEncrypt [] ''admin@previousnext.com.au'' ''/tmp'') None,
        Serve 443 (letsEncryptCreds [] ''admin@previousnext.com.au'' ''/tmp'')],
       cluster = []\<rparr>)"
  using run_letsencrypt_serves [of clusterCertUnreadable serverCertOnly "[]"]
  by (simp add: clusterCertUnreadable_def clusterOK_def serverCertOnly_def serverDefaults_def
      newServer_def)

theorem static_credential_failure_is_fatal_witness:
  "TLSCert serverCertAndKey \<noteq> [] \<and> TLSKey serverCertAndKey \<noteq> []
   \<and> credentials_NewServerTLSFromFile clusterCertUnreadable
        (TLSCert serverCertAndKey) (TLSKey serverCertAndKey)
       = Inl (Failure ''open tls.crt: no such file or directory'')
   \<and> net_Listen clusterCertUnreadable (Port serverCertAndKey) = None
   \<and> rest_InClusterConfig clusterCertUnreadable = None
   \<and> client_NewForConfig clusterCertUnreadable = None
   \<and> newServer clusterCertUnreadable serverCertAndKey = None
   \<and> panicked (run clusterCertUnreadable serverCertAndKey (start []))
   \<and> \<not> serves (run clusterCertUnreadable serverCertAndKey (start []))
   \<and> fst (run clusterCertUnreadable serverCertAndKey (start []))
        = Inl (Failure ''open tls.crt: no such file or directory'')
   \<and> TLSKey serverCertOnly = []
   \<and> net_Listen clusterCertUnreadable (Port serverCertOnly) = None
   \<and> newServer clusterCertUnreadable serverCertOnly = None
   \<and> serves (run clusterCertUnreadable serverCertOnly (start []))
   \<and> \<not> panicked (run clusterCertUnreadable serverCertOnly (start []))"
proof -
  have both: "TLSCert serverCertAndKey \<noteq> [] \<and> TLSKey serverCertAndKey \<noteq> []"
    by (simp add: serverCertAndKey_def serverDefaults_def)
  have load: "credentials_NewServerTLSFromFile clusterCertUnreadable
        (TLSCert serverCertAndKey) (TLSKey serverCertAndKey)
       = Inl (Failure ''open tls.crt: no such file or directory'')"
    by (simp add: clusterCertUnreadable_def clusterOK_def)
  have ok: "net_Listen clusterCertUnreadable (Port serverCertAndKey) = None
     \<and> rest_InClusterConfig clusterCertUnreadable = None
     \<and> client_NewForConfig clusterCertUnreadable = None
     \<and> newServer clusterCertUnreadable serverCertAndKey = None"
    by (simp add: clusterCertUnreadable_def clusterOK_def newServer_def)
  have one: "TLSKey serverCertOnly = []"
    by (simp add: serverCertOnly_def serverDefaults_def)
  have ok': "net_Listen clusterCertUnreadable (Port serverCertOnly) = None
     \<and> newServer clusterCertUnreadable serverCertOnly = None"
    by (simp add: clusterCertUnreadable_def clusterOK_def newServer_def)
  show ?thesis
    using both load ok one ok'
      static_credential_failure_is_fatal [of serverCertAndKey clusterCertUnreadable
        "Failure ''open tls.crt: no such file or directory''" "[]"]
      static_credential_failure_is_fatal [of serverCertOnly clusterCertUnreadable
        "Failure ''open tls.crt: no such file or directory''" "[]"]
    by simp
qed

text \<open>
  The claim as first stated fails on the automated path. Here a certificate path is
  configured, its file cannot be read and no key is given, so no credential can be loaded
  from the files; the run still reaches serving, with the credentials of \<open>getLetsEncrypt\<close>,
  and does not panic.
\<close>

theorem credential_failure_counterexample:
  "TLSCert serverCertOnly = ''tls.crt''
   \<and> credentials_NewServerTLSFromFile clusterCertUnreadable
        (TLSCert serverCertOnly) (TLSKey serverCertOnly)
       = Inl (Failure ''open tls.crt: no such file or directory'')
   \<and> serves (run clusterCertUnreadable serverCertOnly (start []))
   \<and> \<not> panicked (run clusterCertUnreadable serverCertOnly (start []))
   \<and> fst (run clusterCertUnreadable serverCertOnly (start [])) = Inr ()"
proof -
  have "TLSCert serverCertOnly = ''tls.crt''"
    by (simp add: serverCertOnly_def serverDefaults_def)
  moreover have "credentials_NewServerTLSFromFile clusterCertUnreadable
        (TLSCert serverCertOnly) (TLSKey serverCertOnly)
       = Inl (Failure ''open tls.crt: no such file or directory'')"
    by (simp add: clusterCertUnreadable_def clusterOK_def)
  moreover have "serves (run clusterCertUnreadable serverCertOnly (start []))"
    by (simp add: run_certOnly_unreadable traces)
  moreover have "\<not> panicked (run clusterCertUnreadable serverCertOnly (start []))"
    by (simp add: run_certOnly_unreadable traces)
  moreover have "fst (run clusterCertUnreadable serverCertOnly (start [])) = Inr ()"
    by (simp add: run_certOnly_unreadable)
  ultimately show ?thesis by blast
qed

text \<open>In both entry points a return from \<open>getLetsEncrypt\<close> never carries an error.\<close>

lemma leave_letsencrypt_run:
  assumes "Leave (GetLetsEncrypt d m c) r \<in> set (trace (snd (run sys cmd (start k))))"
  shows "r = None"
proof (cases rule: run_cases [of sys cmd k])
  case (listen e)
  show ?thesis using assms by (auto simp add: listen(2) traces)
next
  case (config e)
  show ?thesis using assms by (auto simp add: config(3) traces)
next
  case (client e)
  show ?thesis using assms by (auto simp add: client(4) traces)
next
  case (server e)
  show ?thesis using assms by (auto simp add: server(5) traces)
next
  case (static_fails e)
  show ?thesis using assms by (auto simp add: static_fails(8) traces)
next
  case (static_serves creds)
  show ?thesis using assms by (auto simp add: static_serves(8) traces)
next
  case letsencrypt
  show ?thesis using assms by (auto simp add: letsencrypt(6) traces)
qed

lemma leave_letsencrypt_main:
  assumes "Leave (GetLetsEncrypt d m c) r \<in> set (trace (snd (main sys cli (start k))))"
  shows "r = None"
proof (cases rule: main_cases [of sys cli k])
  case (listen e')
  show ?thesis using assms by (auto simp add: listen(2) readers)
next
  case (config e')
  show ?thesis using assms by (auto simp add: config(3) readers)
next
  case (client e')
  show ?thesis using assms by (auto simp add: client(4) readers)
next
  case (traefik e' k1)
  show ?thesis using assms by (auto simp add: traefik(5) readers)
next
  case (ssh e' k1 k2)
  show ?thesis using assms by (auto simp add: ssh(6) readers)
next
  case (blackDeath e' k1 k2 k3)
  show ?thesis using assms by (auto simp add: blackDeath(7) readers)
next
  case (static_fails e' k1 k2 k3)
  show ?thesis using assms by (auto simp add: static_fails(10) readers)
next
  case (static_serves creds k1 k2 k3)
  show ?thesis using assms by (auto simp add: static_serves(10) readers)
next
  case (letsencrypt k1 k2 k3)
  show ?thesis using assms by (auto simp add: letsencrypt(8) readers)
qed

text \<open>
  Claim C9. \<open>getLetsEncrypt\<close> returns credentials (the TLS configuration whose certificate
  getter is the manager's) and the nil error for every domain, email and cache directory.
  Hence in \<open>cmdServer.run\<close> and in the earlier \<open>main\<close> every return from it is without
  error: the automated path cannot panic at startup, whatever the enrollment would meet.
\<close>

theorem getLetsEncrypt_never_fails:
  "getLetsEncrypt domain email cache =
     Inr (NewTLS \<lparr>Certificates = [], GetCertificate =
        Some \<lparr>Prompt = AcceptTOS, Cache = cache, HostPolicy = domain, Email = email\<rparr>\<rparr>)
   \<and> (\<forall>d m c r. Leave (GetLetsEncrypt d m c) r \<in> set (trace (snd (run sys cmd (start k))))
        \<longrightarrow> r = None)
   \<and> (\<forall>d m c r. Leave (GetLetsEncrypt d m c) r \<in> set (trace (snd (main sys cli (start k'))))
        \<longrightarrow> r = None)"
  using leave_letsencrypt_run [of _ _ _ _ sys cmd k] leave_letsencrypt_main [of _ _ _ _ sys cli k']
  by (simp add: getLetsEncrypt_def)

text \<open>The run of the server sub command with its default flags on a cluster without errors.\<close>

lemma run_clusterOK:
  "run clusterOK serverDefaults (start []) =
     (Inr (), \<lparr>trace = runBooted serverDefaults @ [Leave ServerNew None,
        Enter (GetLetsEncrypt [] ''admin@previousnext.com.au'' ''/tmp''),
        Leave (GetLetsEncrypt [] ''admin@previousnext.com.au'' ''/tmp'') None,
        Serve 443 (letsEncryptCreds [] ''admin@previousnext.com.au'' ''/tmp'')],
       cluster = []\<rparr>)"
  using run_letsencrypt_serves [of clusterOK serverDefaults "[]"]
  by (simp add: clusterOK_def serverDefaults_def newServer_def)

theorem getLetsEncrypt_never_fails_witness:
  "getLetsEncrypt [] ''admin@previousnext.com.au'' ''/tmp'' =
     Inr (NewTLS \<lparr>Certificates = [], GetCertificate =
        Some \<lparr>Prompt = AcceptTOS, Cache = ''/tmp'', HostPolicy = [],
              Email = ''admin@previousnext.com.au''\<rparr>\<rparr>)
   \<and> Leave (GetLetsEncrypt [] ''admin@previousnext.com.au'' ''/tmp'') None
        \<in> set (trace (snd (run clusterOK serverDefaults (start []))))
   \<and> Leave (GetLetsEncrypt [] ''admin@previousnext.com.au'' ''/tmp'') None
        \<in> set (trace (snd (main clusterOK flagDefaults (start []))))
   \<and> Leave (GetLetsEncrypt [] ''admin@previousnext.com.au'' ''/tmp'')
          (Some (Failure ''acme: enrollment failed''))
        \<notin> set (trace (snd (run clusterOK serverDefaults (start []))))"
proof -
  have a: "Leave (GetLetsEncrypt [] ''admin@previousnext.com.au'' ''/tmp'') None
        \<in> set (trace (snd (run clusterOK serverDefaults (start []))))"
    by (simp add: run_clusterOK)
  have b: "Leave (GetLetsEncrypt [] ''admin@previousnext.com.au'' ''/tmp'') None
        \<in> set (trace (snd (main clusterOK flagDefaults (start []))))"
    by (simp add: main_clusterOK)
  show ?thesis
    using a b getLetsEncrypt_never_fails [of "[]" "''admin@previousnext.com.au''" "''/tmp''"
        clusterOK serverDefaults "[]" flagDefaults "[]"]
    by auto
qed

text \<open>
  Claim C10. In \<open>cmdServer.run\<close>, once startup has reached the credential step, the
  certificate files are loaded exactly when both the certificate path and the key path are
  non-empty, and \<open>getLetsEncrypt\<close> is called exactly otherwise. With both paths given, the
  static variant is what the server uses: the run serves once, with the very credentials
  the files gave, or panics with the error of loading them and serves nothing. Without
  both, and so with exactly one of the two, the run serves once, with the credentials of
  \<open>getLetsEncrypt\<close>: the file is not read and no error is reported.
\<close>

theorem static_iff_both_paths:
  assumes "net_Listen sys (Port cmd) = None" and "rest_InClusterConfig sys = None"
    and "client_NewForConfig sys = None" and "newServer sys cmd = None"
  shows "(list_ex isStaticLoad (trace (snd (run sys cmd (start k))))
            \<longleftrightarrow> TLSCert cmd \<noteq> [] \<and> TLSKey cmd \<noteq> [])
       \<and> (list_ex isLetsEncrypt (trace (snd (run sys cmd (start k))))
            \<longleftrightarrow> \<not> (TLSCert cmd \<noteq> [] \<and> TLSKey cmd \<noteq> []))
       \<and> ((TLSCert cmd = []) \<noteq> (TLSKey cmd = []) \<longrightarrow>
            fst (run sys cmd (start k)) = Inr ()
          \<and> last (trace (snd (run sys cmd (start k)))) =
              Serve (Port cmd) (NewTLS \<lparr>Certificates = [], GetCertificate =
                Some \<lparr>Prompt = AcceptTOS, Cache = LetsEncryptCache cmd,
                      HostPolicy = LetsEncryptDomain cmd, Email = LetsEncryptEmail cmd\<rparr>\<rparr>))
       \<and> (TLSCert cmd \<noteq> [] \<and> TLSKey cmd \<noteq> [] \<longrightarrow>
            (case credentials_NewServerTLSFromFile sys (TLSCert cmd) (TLSKey cmd) of
               Inr creds \<Rightarrow>
                 fst (run sys cmd (start k)) = Inr ()
               \<and> filter isServe (trace (snd (run sys cmd (start k)))) = [Serve (Port cmd) creds]
             | Inl e \<Rightarrow>
                 fst (run sys cmd (start k)) = Inl e
               \<and> filter isServe (trace (snd (run sys cmd (start k)))) = []))
       \<and> (\<not> (TLSCert cmd \<noteq> [] \<and> TLSKey cmd \<noteq> []) \<longrightarrow>
            fst (run sys cmd (start k)) = Inr ()
          \<and> filter isServe (trace (snd (run sys cmd (start k)))) =
              [Serve (Port cmd) (NewTLS \<lparr>Certificates = [], GetCertificate =
                Some \<lparr>Prompt = AcceptTOS, Cache = LetsEncryptCache cmd,
                      HostPolicy = LetsEncryptDomain cmd, Email = LetsEncryptEmail cmd\<rparr>\<rparr>)])"
proof (cases rule: run_cases [of sys cmd k])
  case (listen e)
  show ?thesis using assms listen(1) by simp
next
  case (config e)
  show ?thesis using assms config(2) by simp
next
  case (client e)
  show ?thesis using assms client(3) by simp
next
  case (server e)
  show ?thesis using assms server(4) by simp
next
  case (static_fails e)
  show ?thesis using static_fails(5,6) by (simp add: static_fails(7,8) traces)
next
  case (static_serves creds)
  show ?thesis using static_serves(5,6) by (simp add: static_serves(7,8) traces)
next
  case letsencrypt
  show ?thesis using letsencrypt(5) by (auto simp add: letsencrypt(6) traces letsEncryptCreds_def)
qed

text \<open>The run of the server sub command given both paths, on a machine where they load.\<close>

lemma run_certAndKey_loaded:
  "run clusterOK serverCertAndKey (start []) =
     (Inr (), \<lparr>trace = runBooted serverCertAndKey @ [Leave ServerNew None,
        Enter (NewServerTLSFromFile ''tls.crt'' ''tls.key''),
        Leave (NewServerTLSFromFile ''tls.crt'' ''tls.key'') None,
        Serve 443 (NewTLS \<lparr>Certificates = [''tls.crt''], GetCertificate = None\<rparr>)],
       cluster = []\<rparr>)"
  using run_static_serves [of clusterOK serverCertAndKey
      "NewTLS \<lparr>Certificates = [''tls.crt''], GetCertificate = None\<rparr>" "[]"]
  by (simp add: clusterOK_def serverCertAndKey_def serverDefaults_def newServer_def)

theorem static_iff_both_paths_witness:
  "net_Listen clusterOK (Port serverCertOnly) = None \<and> rest_InClusterConfig clusterOK = None
   \<and> client_NewForConfig clusterOK = None \<and> newServer clusterOK serverCertOnly = None
   \<and> TLSCert serverCertOnly = ''tls.crt'' \<and> TLSKey serverCertOnly = []
   \<and> \<not> list_ex isStaticLoad (trace (snd (run clusterOK serverCertOnly (start []))))
   \<and> list_ex isLetsEncrypt (trace (snd (run clusterOK serverCertOnly (start []))))
   \<and> fst (run clusterOK serverCertOnly (start [])) = Inr ()
   \<and> last (trace (snd (run clusterOK serverCertOnly (start [])))) =
       Serve 443 (NewTLS \<lparr>Certificates = [], GetCertificate =
         Some \<lparr>Prompt = AcceptTOS, Cache = ''/tmp'', HostPolicy = [],
               Email = ''admin@previousnext.com.au''\<rparr>\<rparr>)
   \<and> filter isServe (trace (snd (run clusterOK serverCertOnly (start [])))) =
       [Serve 443 (NewTLS \<lparr>Certificates = [], GetCertificate =
         Some \<lparr>Prompt = AcceptTOS, Cache = ''/tmp'', HostPolicy = [],
               Email = ''admin@previousnext.com.au''\<rparr>\<rparr>)]
   \<and> newServer clusterOK serverCertAndKey = None
   \<and> TLSCert serverCertAndKey = ''tls.crt'' \<and> TLSKey serverCertAndKey = ''tls.key''
   \<and> credentials_NewServerTLSFromFile clusterOK ''tls.crt'' ''tls.key'' =
       Inr (NewTLS \<lparr>Certificates = [''tls.crt''], GetCertificate = None\<rparr>)
   \<and> list_ex isStaticLoad (trace (snd (run clusterOK serverCertAndKey (start []))))
   \<and> fst (run clusterOK serverCertAndKey (start [])) = Inr ()
   \<and> filter isServe (trace (snd (run clusterOK serverCertAndKey (start [])))) =
       [Serve 443 (NewTLS \<lparr>Certificates = [''tls.crt''], GetCertificate = None\<rparr>)]"
proof -
  have ok: "net_Listen clusterOK (Port serverCertOnly) = None" "rest_InClusterConfig clusterOK = None"
    "client_NewForConfig clusterOK = None" "newServer clusterOK serverCertOnly = None"
    by (simp_all add: clusterOK_def newServer_def)
  have ok': "net_Listen clusterOK (Port serverCertAndKey) = None" "rest_InClusterConfig clusterOK = None"
    "client_NewForConfig clusterOK = None" "newServer clusterOK serverCertAndKey = None"
    by (simp_all add: clusterOK_def newServer_def)
  have one: "TLSCert serverCertOnly = ''tls.crt'' \<and> TLSKey serverCertOnly = []"
    by (simp add: serverCertOnly_def serverDefaults_def)
  have two: "TLSCert serverCertAndKey = ''tls.crt'' \<and> TLSKey serverCertAndKey = ''tls.key''"
    by (simp add: serverCertAndKey_def serverDefaults_def)
  have load: "credentials_NewServerTLSFromFile clusterOK ''tls.crt'' ''tls.key'' =
       Inr (NewTLS \<lparr>Certificates = [''tls.crt''], GetCertificate = None\<rparr>)"
    by (simp add: clusterOK_def)
  have flds: "Port serverCertOnly = 443" "LetsEncryptCache serverCertOnly = ''/tmp''"
    "LetsEncryptDomain serverCertOnly = []"
    "LetsEncryptEmail serverCertOnly = ''admin@previousnext.com.au''"
    "Port serverCertAndKey = 443"
    by (simp_all add: serverCertOnly_def serverCertAndKey_def serverDefaults_def)
  show ?thesis
    using ok ok'(4) one two load
      static_iff_both_paths [OF ok, of "[]"] static_iff_both_paths [OF ok', of "[]"]
    by (simp add: flds)
qed

section \<open>The shape of the cache volume claim\<close>

text \<open>
  Claim C8. The object that \<open>PersistentVolumeClaim\<close> produces has the access modes
  \<open>[ReadWriteMany]\<close>, as its only request the storage quantity read from the input's
  \<open>Storage\<close>, the input's namespace and name, and the storage-class annotation \<open>cache\<close>.
  An object is produced exactly when \<open>Storage\<close> parses as a quantity: \<open>resource.MustParse\<close>
  panics otherwise.
\<close>

theorem PersistentVolumeClaim_shape:
  "(PersistentVolumeClaim parseQuantity input = None \<longleftrightarrow> parseQuantity (Storage input) = None)
   \<and> (\<forall>pvc. PersistentVolumeClaim parseQuantity input = Some pvc \<longrightarrow>
        AccessModes (Spec pvc) = [ReadWriteMany]
      \<and> Requests (Resources (Spec pvc)) ResourceStorage = parseQuantity (Storage input)
      \<and> dom (Requests (Resources (Spec pvc))) = {ResourceStorage}
      \<and> ObjectMeta.Namespace (Meta pvc) = PersistentVolumeClaimInput.Namespace input
      \<and> ObjectMeta.Name (Meta pvc) = PersistentVolumeClaimInput.Name input
      \<and> Annotations (Meta pvc) ''volume.beta.kubernetes.io/storage-class'' = Some ''cache'')"
  by (auto simp: PersistentVolumeClaim_def split: option.splits)

theorem PersistentVolumeClaim_shape_witness:
  "PersistentVolumeClaim parseTwoSizes
      \<lparr>PersistentVolumeClaimInput.Namespace = ''default'', PersistentVolumeClaimInput.Name = ''cache'',
       Storage = ''100Gi''\<rparr> =
     Some \<lparr>Meta = \<lparr>ObjectMeta.Namespace = ''default'', ObjectMeta.Name = ''cache'',
                    Annotations = [''volume.beta.kubernetes.io/storage-class'' \<mapsto> ''cache'',
                                   ''author'' \<mapsto> ''m8s'']\<rparr>,
            Spec = \<lparr>AccessModes = [ReadWriteMany],
                    Resources = \<lparr>Requests = [ResourceStorage \<mapsto> 107374182400]\<rparr>\<rparr>\<rparr>
   \<and> Requests (Resources (Spec (the (PersistentVolumeClaim parseTwoSizes
        \<lparr>PersistentVolumeClaimInput.Namespace = ''default'', PersistentVolumeClaimInput.Name = ''cache'',
         Storage = ''100Gi''\<rparr>)))) ResourceStorage = Some 107374182400"
proof -
  have p: "PersistentVolumeClaim parseTwoSizes
      \<lparr>PersistentVolumeClaimInput.Namespace = ''default'', PersistentVolumeClaimInput.Name = ''cache'',
       Storage = ''100Gi''\<rparr> =
     Some \<lparr>Meta = \<lparr>ObjectMeta.Namespace = ''default'', ObjectMeta.Name = ''cache'',
                    Annotations = [''volume.beta.kubernetes.io/storage-class'' \<mapsto> ''cache'',
                                   ''author'' \<mapsto> ''m8s'']\<rparr>,
            Spec = \<lparr>AccessModes = [ReadWriteMany],
                    Resources = \<lparr>Requests = [ResourceStorage \<mapsto> 107374182400]\<rparr>\<rparr>\<rparr>"
    by (simp add: PersistentVolumeClaim_def parseTwoSizes_def)
  show ?thesis
    using p PersistentVolumeClaim_shape [of parseTwoSizes
        "\<lparr>PersistentVolumeClaimInput.Namespace = ''default'', PersistentVolumeClaimInput.Name = ''cache'',
         Storage = ''100Gi''\<rparr>"]
    by (simp add: parseTwoSizes_def)
qed

section \<open>Properties of the orchestrator as designed\<close>

lemmas steps = provision_def setStatus_def createSecret_def createWorkload_def createRoute_def Let_def

text \<open>Provisioning always leaves the environment recorded, as Ready or as Failed.\<close>

lemma provision_records:
  "\<exists>e. environments (snd (provision now fault i img cred t s)) i = Some e
       \<and> status e = fst (provision now fault i img cred t s)
       \<and> (status e = Ready \<or> status e = Failed)"
  by (simp add: steps)

lemma Build_records:
  "\<exists>e. environments (snd (Build now fault i img cred t s)) i = Some e
       \<and> status e = fst (Build now fault i img cred t s)
       \<and> status e \<noteq> Destroyed"
proof (cases "active s i")
  case True
  then show ?thesis by (auto simp: Build_def active_def split: option.splits)
next
  case False
  then have "Build now fault i img cred t s = provision now fault i img cred t s"
    by (auto simp: Build_def active_def split: option.splits)
  then show ?thesis using provision_records [of now fault i img cred t s] by auto
qed

lemma Build_active:
  "active s i \<Longrightarrow> Build now fault i img cred t s = (Status i s, s)"
  by (auto simp: Build_def active_def Status_def split: option.splits)

text \<open>
  Claim C1. A \<open>Build\<close> for an identity that has an active environment answers with the
  status of that environment and changes nothing, so no second workload is created; and a
  \<open>Build\<close> repeated for the same identity right after any \<open>Build\<close> answers what the first
  one answered and leaves the state the first one left.
\<close>

theorem Build_idempotent:
  "(active s i \<longrightarrow> Build now fault i img cred t s = (Status i s, s))
   \<and> Build now' fault' i img' cred' t' (snd (Build now fault i img cred t s)) =
       (fst (Build now fault i img cred t s), snd (Build now fault i img cred t s))"
proof -
  obtain e where e: "environments (snd (Build now fault i img cred t s)) i = Some e"
    "status e = fst (Build now fault i img cred t s)" "status e \<noteq> Destroyed"
    using Build_records [of now fault i img cred t s] by blast
  have "Build now' fault' i img' cred' t' (snd (Build now fault i img cred t s)) =
       (fst (Build now fault i img cred t s), snd (Build now fault i img cred t s))"
    using e by (simp add: Build_def)
  then show ?thesis using Build_active by blast
qed

text \<open>The first build of \<open>pr-123\<close>, on the fresh orchestrator.\<close>

lemma fresh_Build:
  "Build 100 noFault ''pr-123'' ''app:1.0'' ''regcred'' 86400 freshOrchestrator =
     (Ready,
      \<lparr>environments = [''pr-123'' \<mapsto> \<lparr>status = Ready, requestedAt = 100, ttl = 86400,
                         registryCredential = ''regcred'', desiredImage = ''app:1.0''\<rparr>],
       workloads = [''pr-123'' \<mapsto> \<lparr>image = ''app:1.0'', labels = expiryLabels 100 86400 ''pr-123''\<rparr>],
       routes = [''pr-123'' \<mapsto> ''pr-123''],
       secrets = [''pr-123'' \<mapsto> ''regcred''],
       cacheClaim = Some ''cache''\<rparr>)"
  by (simp add: Build_def steps freshOrchestrator_def noFault_def)

theorem Build_idempotent_witness:
  "active provisioningOrchestrator ''pr-42''
   \<and> Build 200 noFault ''pr-42'' ''app:1.0'' ''regcred'' 86400 provisioningOrchestrator
        = (Provisioning, provisioningOrchestrator)
   \<and> workloads (snd (Build 200 noFault ''pr-42'' ''app:1.0'' ''regcred'' 86400 provisioningOrchestrator))
        ''pr-42'' = None
   \<and> fst (Build 200 noFault ''pr-123'' ''app:2.0'' ''regcred'' 3600 readyOrchestrator) = Ready"
proof -
  have a: "active provisioningOrchestrator ''pr-42''"
    by (simp add: active_def provisioningOrchestrator_def)
  have st: "Status ''pr-42'' provisioningOrchestrator = Provisioning"
    by (simp add: Status_def provisioningOrchestrator_def)
  have w: "workloads provisioningOrchestrator ''pr-42'' = None"
    by (simp add: provisioningOrchestrator_def freshOrchestrator_def)
  have r: "fst (Build 100 noFault ''pr-123'' ''app:1.0'' ''regcred'' 86400 freshOrchestrator) = Ready"
    by (simp add: fresh_Build)
  show ?thesis
    using a st w r
      Build_idempotent [of provisioningOrchestrator "''pr-42''" 200 noFault "''app:1.0''"
        "''regcred''" 86400]
      Build_idempotent [of freshOrchestrator "''pr-123''" 100 noFault "''app:1.0''"
        "''regcred''" 86400 200 noFault "''app:2.0''" "''regcred''" 3600]
    by (simp add: readyOrchestrator_def)
qed

text \<open>
  Claim C2. When a \<open>Build\<close> that provisions a new environment ends as Ready, the store
  holds the workload of that identity, and its metadata has a point in time under
  \<open>createdAt\<close> (the time of the call), a duration under \<open>ttl\<close> equal to the ttl requested
  in the call, and the identity under \<open>owner\<close>; the sweeper reads an expiry from it, the
  time of the call plus the requested ttl.
\<close>

theorem Ready_workload_carries_expiry:
  assumes "\<not> active s i" and "Build now fault i img cred t s = (Ready, s')"
  shows "\<exists>w e. workloads s' i = Some w
           \<and> labels w ''createdAt'' = Some (Time now)
           \<and> labels w ''ttl'' = Some (Duration t)
           \<and> labels w ''owner'' = Some (Text i)
           \<and> expiry w = Some (now + t)
           \<and> environments s' i = Some e \<and> status e = Ready \<and> ttl e = t"
proof -
  have "provision now fault i img cred t s = (Ready, s')"
    using assms by (auto simp: Build_def active_def split: option.splits if_splits)
  then show ?thesis
    by (auto simp: steps expiryLabels_def expiry_def split: if_splits)
qed

theorem Ready_workload_carries_expiry_witness:
  "\<not> active freshOrchestrator ''pr-123''
   \<and> Build 100 noFault ''pr-123'' ''app:1.0'' ''regcred'' 86400 freshOrchestrator = (Ready, readyOrchestrator)
   \<and> (\<exists>w. workloads readyOrchestrator ''pr-123'' = Some w
          \<and> labels w ''createdAt'' = Some (Time 100)
          \<and> labels w ''ttl'' = Some (Duration 86400)
          \<and> expiry w = Some (100 + 86400))"
proof -
  have a: "\<not> active freshOrchestrator ''pr-123''"
    by (simp add: active_def freshOrchestrator_def)
  have b: "Build 100 noFault ''pr-123'' ''app:1.0'' ''regcred'' 86400 freshOrchestrator = (Ready, readyOrchestrator)"
    by (simp add: readyOrchestrator_def fresh_Build)
  show ?thesis
    using a b Ready_workload_carries_expiry [OF a b] by blast
qed

text \<open>
  Claim C3. \<open>Destroy\<close> of an identity with an active environment answers Destroyed, and a
  \<open>Destroy\<close> of the same identity right after any \<open>Destroy\<close> answers NotFound as an
  ordinary result and changes nothing.
\<close>

theorem Destroy_idempotent:
  "(active s i \<longrightarrow> fst (Destroy i s) = Destroyed)
   \<and> Destroy i (snd (Destroy i s)) = (NotFound, snd (Destroy i s))"
  by (simp add: Destroy_def active_def setStatus_def Let_def split: option.splits)

theorem Destroy_idempotent_witness:
  "active readyOrchestrator ''pr-123''
   \<and> fst (Destroy ''pr-123'' readyOrchestrator) = Destroyed
   \<and> fst (Destroy ''pr-123'' (snd (Destroy ''pr-123'' readyOrchestrator))) = NotFound"
proof -
  have a: "active readyOrchestrator ''pr-123''"
    by (simp add: readyOrchestrator_def fresh_Build active_def)
  show ?thesis
    using a Destroy_idempotent [of readyOrchestrator "''pr-123''"] by simp
qed

text \<open>No handler writes the cache claim.\<close>

lemma Build_cacheClaim: "cacheClaim (snd (Build now fault i img cred t s)) = cacheClaim s"
  by (simp add: Build_def steps split: option.splits)

lemma Destroy_cacheClaim: "cacheClaim (snd (Destroy i s)) = cacheClaim s"
  by (simp add: Destroy_def setStatus_def Let_def)

lemma handle_cacheClaim: "cacheClaim (snd (handle r s)) = cacheClaim s"
  by (cases r) (simp_all add: Build_cacheClaim Destroy_cacheClaim)

lemma serveAll_cacheClaim: "cacheClaim (serveAll rs s) = cacheClaim s"
  by (induction rs arbitrary: s) (simp_all add: handle_cacheClaim)

lemma Destroy_frame:
  "workloads (snd (Destroy i s)) = (if active s i then (workloads s)(i := None) else workloads s)
   \<and> routes (snd (Destroy i s)) = (if active s i then (routes s)(i := None) else routes s)
   \<and> secrets (snd (Destroy i s)) = (if active s i then (secrets s)(i := None) else secrets s)"
  by (simp add: Destroy_def setStatus_def Let_def)

text \<open>
  Claim C4. The shared cache claim is the same after any sequence of requests as before it,
  and so after any single \<open>Build\<close> or \<open>Destroy\<close>. A \<open>Destroy\<close> leaves the workloads, routes
  and secrets of every other identity as they were, and for an active environment removes
  the three of its own identity.
\<close>

theorem cache_claim_never_touched:
  "cacheClaim (serveAll rs s) = cacheClaim s
   \<and> cacheClaim (snd (Build now fault i img cred t s)) = cacheClaim s
   \<and> cacheClaim (snd (Destroy i s)) = cacheClaim s
   \<and> (\<forall>j. j \<noteq> i \<longrightarrow> workloads (snd (Destroy i s)) j = workloads s j
                  \<and> routes (snd (Destroy i s)) j = routes s j
                  \<and> secrets (snd (Destroy i s)) j = secrets s j)
   \<and> (active s i \<longrightarrow> workloads (snd (Destroy i s)) i = None
                  \<and> routes (snd (Destroy i s)) i = None
                  \<and> secrets (snd (Destroy i s)) i = None)"
  by (simp add: serveAll_cacheClaim Build_cacheClaim Destroy_cacheClaim Destroy_frame)

theorem cache_claim_never_touched_witness:
  "cacheClaim (serveAll [BuildRequest 100 noFault ''pr-123'' ''app:1.0'' ''regcred'' 86400,
                         DestroyRequest ''pr-123'',
                         BuildRequest 300 noFault ''pr-7'' ''app:1.1'' ''regcred'' 3600]
                 freshOrchestrator) = Some ''cache''
   \<and> active readyOrchestrator ''pr-123''
   \<and> workloads readyOrchestrator ''pr-123'' \<noteq> None
   \<and> workloads (snd (Destroy ''pr-123'' readyOrchestrator)) ''pr-123'' = None
   \<and> ''pr-7'' \<noteq> ''pr-123''
   \<and> workloads (snd (Destroy ''pr-123'' readyOrchestrator)) ''pr-7'' = workloads readyOrchestrator ''pr-7''
   \<and> cacheClaim (snd (Destroy ''pr-123'' readyOrchestrator)) = Some ''cache''"
proof -
  have a: "active readyOrchestrator ''pr-123''"
    by (simp add: readyOrchestrator_def fresh_Build active_def)
  have w: "workloads readyOrchestrator ''pr-123'' \<noteq> None"
    by (simp add: readyOrchestrator_def fresh_Build)
  have c: "cacheClaim freshOrchestrator = Some ''cache''"
    by (simp add: freshOrchestrator_def)
  have c': "cacheClaim readyOrchestrator = Some ''cache''"
    by (simp add: readyOrchestrator_def fresh_Build)
  have n: "''pr-7'' \<noteq> ''pr-123''" by simp
  show ?thesis
    using a w c c' n
      cache_claim_never_touched [of "[BuildRequest 100 noFault ''pr-123'' ''app:1.0'' ''regcred'' 86400,
                         DestroyRequest ''pr-123'',
                         BuildRequest 300 noFault ''pr-7'' ''app:1.1'' ''regcred'' 3600]"
        freshOrchestrator]
      cache_claim_never_touched [of "[]" readyOrchestrator 0 noFault "''pr-123''" "[]" "[]" 0]
    by simp
qed

end
